theory Spec2Isabelle
  imports Complex_Main "HOL-Library.AList"
begin

section \<open>Python values\<close>

text \<open>
  The consumer of \<^verbatim>\<open>src/rejected/consumer.py\<close> handles untyped Python values in three
  places: AMQP header tables, the property dictionaries handed to the publishing
  methods, and decoded message bodies. \<open>pyval\<close> is the universe of such values; a
  dictionary is an association list in insertion order (\<open>AList.update\<close> replaces in place
  and appends a new key, as a Python dict does). A float is a double: the rational it
  denotes when it is finite, an infinity (positive for \<open>True\<close>) or not a number.
  Arithmetic on floats rounds, and is not defined here: the addition of an integer to a
  float is a parameter (\<open>float_add\<close> of the environment below).
\<close>

datatype pyfloat = Finite rat | Infinity bool | NaN

datatype pyval =
    PNone
  | PBool bool
  | PInt int
  | PFloat pyfloat
  | PStr string
  | PBytes string
  | PList "pyval list"
  | PDict "(string \<times> pyval) list"

type_synonym pydict = "(string \<times> pyval) list"

text \<open>Python truthiness, as tested by \<^verbatim>\<open>if x:\<close>, \<^verbatim>\<open>not x\<close> and \<^verbatim>\<open>x or y\<close>.\<close>

fun truthy :: "pyval \<Rightarrow> bool" where
  "truthy PNone = False"
| "truthy (PBool b) = b"
| "truthy (PInt i) = (i \<noteq> 0)"
| "truthy (PFloat x) = (x \<noteq> Finite 0)"
| "truthy (PStr s) = (s \<noteq> [])"
| "truthy (PBytes s) = (s \<noteq> [])"
| "truthy (PList xs) = (xs \<noteq> [])"
| "truthy (PDict d) = (d \<noteq> [])"

text \<open>\<^verbatim>\<open>d.get(k)\<close>: the value, or None for a missing key.\<close>

definition dict_get :: "pydict \<Rightarrow> string \<Rightarrow> pyval" where
  "dict_get d k = (case map_of d k of None \<Rightarrow> PNone | Some v \<Rightarrow> v)"

text \<open>Truthiness of an optional string (\<^verbatim>\<open>None\<close> and \<^verbatim>\<open>''\<close> are falsy).\<close>

fun truthy_str :: "string option \<Rightarrow> bool" where
  "truthy_str None = False"
| "truthy_str (Some s) = (s \<noteq> [])"

text \<open>\<^verbatim>\<open>a or b\<close> on optional strings.\<close>

definition or_str :: "string option \<Rightarrow> string option \<Rightarrow> string option" where
  "or_str a b = (if truthy_str a then a else b)"

fun opt_str :: "string option \<Rightarrow> pyval" where
  "opt_str None = PNone"
| "opt_str (Some s) = PStr s"

definition lower_char :: "char \<Rightarrow> char" where
  "lower_char ch =
     (case map_of (zip ''ABCDEFGHIJKLMNOPQRSTUVWXYZ'' ''abcdefghijklmnopqrstuvwxyz'') ch of
        None \<Rightarrow> ch
      | Some l \<Rightarrow> l)"

text \<open>\<^verbatim>\<open>str.lower()\<close> on ASCII text.\<close>

definition py_lower :: "string \<Rightarrow> string" where
  "py_lower s = map lower_char s"

datatype exn =
    RabbitMQException
  | ConfigurationException "string option"
  | ConsumerException "string option"
  | MessageException "string option"
  | ProcessingException "string option"
  | NotImplementedError
  | ValueError string
  | TypeError
  | KeyError
  | AttributeError
  | OtherException string
  | BaseException string

text \<open>
  Modelled from the spec: the exception classes of \<^verbatim>\<open>rejected.errors\<close>
  (\<^verbatim>\<open>RabbitMQException\<close>, and \<^verbatim>\<open>RejectedException\<close> with its \<^verbatim>\<open>metric\<close> field, the base of
  the four classes declared at the end of \<^verbatim>\<open>consumer.py\<close>) are not under
  \<^verbatim>\<open>src/\<close>. The argument of the four consumer exceptions is the metric; \<open>ValueError\<close>
  carries its message; \<open>OtherException\<close> is any other subclass of \<^verbatim>\<open>Exception\<close>, by
  name. \<open>BaseException\<close> is an exception that is not an instance of \<^verbatim>\<open>Exception\<close>, by
  name: \<^verbatim>\<open>SystemExit\<close>, \<^verbatim>\<open>KeyboardInterrupt\<close>, \<^verbatim>\<open>GeneratorExit\<close>. No clause
  \<^verbatim>\<open>except Exception\<close> catches it.
\<close>

fun class_name :: "exn \<Rightarrow> string" where
  "class_name RabbitMQException = ''RabbitMQException''"
| "class_name (ConfigurationException _) = ''ConfigurationException''"
| "class_name (ConsumerException _) = ''ConsumerException''"
| "class_name (MessageException _) = ''MessageException''"
| "class_name (ProcessingException _) = ''ProcessingException''"
| "class_name NotImplementedError = ''NotImplementedError''"
| "class_name (ValueError _) = ''ValueError''"
| "class_name TypeError = ''TypeError''"
| "class_name KeyError = ''KeyError''"
| "class_name AttributeError = ''AttributeError''"
| "class_name (OtherException n) = n"
| "class_name (BaseException n) = n"

text \<open>
  Integer arithmetic and comparison on a header value, as Python 3 evaluates
  \<^verbatim>\<open>v >= n\<close> and \<^verbatim>\<open>v += 1\<close>: a bool is an int, a float is a number, every other type
  raises \<^verbatim>\<open>TypeError\<close>. The comparison of a float with an integer is exact; the sum
  of a float and an integer is what the float addition \<open>fadd\<close> gives.
\<close>

fun float_ge :: "pyfloat \<Rightarrow> int \<Rightarrow> bool" where
  "float_ge (Finite x) n = (of_int n \<le> x)"
| "float_ge (Infinity positive) n = positive"
| "float_ge NaN n = False"

fun py_ge :: "pyval \<Rightarrow> int \<Rightarrow> exn + bool" where
  "py_ge (PInt i) n = Inr (n \<le> i)"
| "py_ge (PBool b) n = Inr (n \<le> (if b then 1 else 0))"
| "py_ge (PFloat x) n = Inr (float_ge x n)"
| "py_ge _ n = Inl TypeError"

fun py_add_int :: "(pyfloat \<Rightarrow> int \<Rightarrow> pyfloat) \<Rightarrow> pyval \<Rightarrow> int \<Rightarrow> exn + pyval" where
  "py_add_int fadd (PInt i) n = Inr (PInt (i + n))"
| "py_add_int fadd (PBool b) n = Inr (PInt ((if b then 1 else 0) + n))"
| "py_add_int fadd (PFloat x) n = Inr (PFloat (fadd x n))"
| "py_add_int fadd _ n = Inl TypeError"

section \<open>Data model\<close>

text \<open>
  Modelled from the spec: \<^verbatim>\<open>rejected.data\<close> (\<^verbatim>\<open>Message\<close>, \<^verbatim>\<open>Properties\<close>,
  \<^verbatim>\<open>Measurement\<close> and the outcome constants) is not under \<^verbatim>\<open>src/\<close>. The records
  below have the attributes \<^verbatim>\<open>consumer.py\<close> reads; the outcome constants carry the names
  \<^verbatim>\<open>consumer.py\<close> uses for them.
\<close>

datatype outcome =
    MESSAGE_ACK
  | MESSAGE_DROP
  | MESSAGE_EXCEPTION
  | CONSUMER_EXCEPTION
  | CONFIGURATION_EXCEPTION
  | PROCESSING_EXCEPTION
  | UNHANDLED_EXCEPTION
  | RABBITMQ_EXCEPTION

record properties =
  p_app_id :: "string option"
  p_content_encoding :: "string option"
  p_content_type :: "string option"
  p_correlation_id :: "string option"
  p_expiration :: "string option"
  p_headers :: "pydict option"
  p_message_id :: "string option"
  p_priority :: "int option"
  p_reply_to :: "string option"
  p_timestamp :: "int option"
  p_type :: "string option"
  p_user_id :: "string option"

record message =
  m_connection :: string
  m_delivery_tag :: nat
  m_exchange :: string
  m_routing_key :: string
  m_redelivered :: bool
  m_body :: string
  m_properties :: properties

record measurement =
  durations :: "(string \<times> rat) list"
  tags :: "(string \<times> string) list"

definition add_duration :: "string \<Rightarrow> rat \<Rightarrow> measurement \<Rightarrow> measurement" where
  "add_duration key v ms = ms\<lparr>durations := durations ms @ [(key, v)]\<rparr>"

definition set_tag :: "string \<Rightarrow> string \<Rightarrow> measurement \<Rightarrow> measurement" where
  "set_tag key v ms = ms\<lparr>tags := AList.update key v (tags ms)\<rparr>"

text \<open>
  Modelled from the spec: \<^verbatim>\<open>rejected.process.Connection\<close> is not under \<^verbatim>\<open>src/\<close>. A
  connection has the attributes the consumer reads, and the list of publishes that
  await a confirmation (\<^verbatim>\<open>add_confirmation_future\<close> appends,
  \<^verbatim>\<open>clear_confirmation_futures\<close> empties).
\<close>

record pending_confirmation =
  pc_exchange :: "string option"
  pc_routing_key :: "string option"
  pc_properties :: pydict

record connection =
  cn_is_connected :: bool
  cn_channel_is_closed :: bool
  cn_publisher_confirmations :: bool
  cn_correlation_id :: "string option"
  cn_pending :: "pending_confirmation list"

definition add_confirmation_future ::
  "string option \<Rightarrow> string option \<Rightarrow> pydict \<Rightarrow> connection \<Rightarrow> connection" where
  "add_confirmation_future exchange routing_key props cn =
     cn\<lparr>cn_pending := cn_pending cn @
        [\<lparr>pc_exchange = exchange, pc_routing_key = routing_key, pc_properties = props\<rparr>]\<rparr>"

definition clear_confirmation_futures :: "connection \<Rightarrow> connection" where
  "clear_confirmation_futures cn = cn\<lparr>cn_pending := []\<rparr>"

text \<open>
  What the consumer does to the outside is recorded in a trace, oldest event first: a
  \<^verbatim>\<open>basic_publish\<close> on a channel, a call of an extension point, a codec call, a warning
  of the logger.
\<close>

record publish =
  pub_connection :: string
  pub_exchange :: "string option"
  pub_routing_key :: "string option"
  pub_body :: pyval
  pub_properties :: pydict
  pub_mandatory :: "bool option"

datatype event =
    Called string
  | Returned string
  | UserStep string
  | Warning string
  | BasicPublish publish
  | ModuleCall string string

datatype type_spec = OneType string | ManyTypes "string list"

text \<open>
  The consumer object. \<open>c_x\<close> is the attribute \<^verbatim>\<open>self._x\<close>; \<open>c_name\<close> is the class name,
  \<open>c_smart\<close> says whether the class derives from \<^verbatim>\<open>SmartConsumer\<close>, \<open>c_uuids\<close> counts the
  calls of \<^verbatim>\<open>uuid.uuid4\<close>, \<open>c_trace\<close> is the trace.
\<close>

record consumer =
  c_name :: string
  c_smart :: bool
  c_connections :: "(string \<times> connection) list"
  c_correlation_id :: "string option"
  c_drop_exchange :: "string option"
  c_drop_invalid :: bool
  c_error_exchange :: string
  c_error_max_retry :: "int option"
  c_finished :: bool
  c_message :: "message option"
  c_message_type :: "type_spec option"
  c_measurement :: "measurement option"
  c_message_body :: pyval
  c_uuids :: nat
  c_trace :: "event list"

record content_type_header =
  ct_type :: string
  ct_subtype :: string
  ct_parameters :: "(string \<times> string) list"

text \<open>
  The libraries and the clock, as parameters: \<^verbatim>\<open>time.time()\<close>,
  \<^verbatim>\<open>datetime.utcnow().isoformat()\<close>, the n-th \<^verbatim>\<open>str(uuid.uuid4())\<close>,
  \<^verbatim>\<open>str.format\<close> of a value, \<^verbatim>\<open>ietfparse.headers.parse_content_type\<close>, the installed
  distributions, \<^verbatim>\<open>bytes.decode(encoding)\<close> (None when it raises),
  \<^verbatim>\<open>str.encode('utf-8')\<close>, the call \<^verbatim>\<open>module.function(value)\<close> of a codec, and the
  sum \<^verbatim>\<open>x + n\<close> of a float and an integer, rounded as Python rounds it.
\<close>

record env =
  now :: rat
  utcnow_iso :: string
  uuid4 :: "nat \<Rightarrow> string"
  py_str :: "pyval \<Rightarrow> string"
  parse_content_type :: "string \<Rightarrow> exn + content_type_header"
  installed :: "string list"
  bytes_decode :: "string \<Rightarrow> string \<Rightarrow> string option"
  encode_utf8 :: "string \<Rightarrow> string"
  module_call :: "string \<Rightarrow> string \<Rightarrow> pyval \<Rightarrow> exn + pyval"
  float_add :: "pyfloat \<Rightarrow> int \<Rightarrow> pyfloat"

definition emit :: "event \<Rightarrow> consumer \<Rightarrow> consumer" where
  "emit ev c = c\<lparr>c_trace := c_trace c @ [ev]\<rparr>"

definition measurement_set_tag :: "string \<Rightarrow> string \<Rightarrow> consumer \<Rightarrow> consumer" where
  "measurement_set_tag key v c = c\<lparr>c_measurement := map_option (set_tag key v) (c_measurement c)\<rparr>"


section \<open>Quick-access properties\<close>

text \<open>
  Modelled from the spec: the decorator \<^verbatim>\<open>utils.MessageProperty\<close> is not under
  \<^verbatim>\<open>src/\<close>; outside the execution of a message (\<^verbatim>\<open>self._message is None\<close>) the
  attribute reads None.
\<close>

definition reply_to :: "consumer \<Rightarrow> string option" where
  "reply_to c = (case c_message c of None \<Rightarrow> None | Some m \<Rightarrow> p_reply_to (m_properties m))"

definition message_id :: "consumer \<Rightarrow> string option" where
  "message_id c = (case c_message c of None \<Rightarrow> None | Some m \<Rightarrow> p_message_id (m_properties m))"

definition message_type :: "consumer \<Rightarrow> string option" where
  "message_type c = (case c_message c of None \<Rightarrow> None | Some m \<Rightarrow> p_type (m_properties m))"

definition exchange :: "consumer \<Rightarrow> string option" where
  "exchange c = (case c_message c of None \<Rightarrow> None | Some m \<Rightarrow> Some (m_exchange m))"

definition headers :: "consumer \<Rightarrow> pydict" where
  "headers c =
     (case c_message c of
        None \<Rightarrow> []
      | Some m \<Rightarrow> (case p_headers (m_properties m) of None \<Rightarrow> [] | Some h \<Rightarrow> h))"

definition lower_or_none :: "string option \<Rightarrow> string option" where
  "lower_or_none v =
     (let s = py_lower (case v of None \<Rightarrow> [] | Some x \<Rightarrow> x) in if s = [] then None else Some s)"

definition content_encoding :: "consumer \<Rightarrow> string option" where
  "content_encoding c =
     (case c_message c of
        None \<Rightarrow> None
      | Some m \<Rightarrow> lower_or_none (p_content_encoding (m_properties m)))"

definition content_type :: "consumer \<Rightarrow> string option" where
  "content_type c =
     (case c_message c of
        None \<Rightarrow> None
      | Some m \<Rightarrow> lower_or_none (p_content_type (m_properties m)))"

section \<open>Content negotiation of SmartConsumer\<close>

definition CODEC_MAP :: "(string \<times> string) list" where
  "CODEC_MAP = [(''bzip2'', ''bz2''), (''gzip'', ''zlib''), (''zlib'', ''zlib'')]"

definition IGNORE_TYPES :: "string list" where
  "IGNORE_TYPES = [''application/octet-stream'', ''text/plain'']"

record codec_entry =
  ce_module :: string
  ce_load :: string
  ce_dump :: string
  ce_binary :: bool
  ce_common :: bool
  ce_enabled :: bool

definition entry :: "string \<Rightarrow> string \<Rightarrow> string \<Rightarrow> bool \<Rightarrow> bool \<Rightarrow> bool \<Rightarrow> codec_entry" where
  "entry m l d b cm en =
     \<lparr>ce_module = m, ce_load = l, ce_dump = d, ce_binary = b, ce_common = cm, ce_enabled = en\<rparr>"

text \<open>
  \<^verbatim>\<open>_SERIALIZATION_MAP\<close> after \<^verbatim>\<open>SmartConsumer.__init__\<close> has probed the installed
  distributions (Python 3 names for the plist functions). A missing \<^verbatim>\<open>binary\<close> is
  falsy, a missing \<^verbatim>\<open>common\<close> or \<^verbatim>\<open>enabled\<close> is true.
\<close>

definition SERIALIZATION_MAP :: "env \<Rightarrow> (string \<times> codec_entry) list" where
  "SERIALIZATION_MAP env =
     (let bs4 = (''beautifulsoup4'' \<in> set (installed env) \<and> ''lxml'' \<in> set (installed env)) in
      [(''application/json'', entry ''json'' ''loads'' ''dumps'' False True True),
       (''application/msgpack'',
          entry ''umsgpack'' ''unpackb'' ''packb'' True True (''u-msgpack-python'' \<in> set (installed env))),
       (''application/pickle'', entry ''pickle'' ''loads'' ''dumps'' True True True),
       (''application/x-pickle'', entry ''pickle'' ''loads'' ''dumps'' True True True),
       (''application/x-plist'', entry ''plistlib'' ''loads'' ''dumps'' True True True),
       (''application/vnd.python.pickle'', entry ''pickle'' ''loads'' ''dumps'' True True True),
       (''application/x-vnd.python.pickle'', entry ''pickle'' ''loads'' ''dumps'' True True True),
       (''text/csv'', entry ''csv'' ''_load_csv'' ''_dump_csv'' False False True),
       (''text/html'', entry ''bs4'' ''_load_html'' ''_dump_bs4'' False False bs4),
       (''text/xml'', entry ''bs4'' ''_load_xml'' ''_dump_bs4'' False False bs4),
       (''text/yaml'', entry ''yaml'' ''load'' ''dump'' False True True)])"

text \<open>
  The methods \<^verbatim>\<open>_load_csv\<close>, \<^verbatim>\<open>_dump_csv\<close>, \<^verbatim>\<open>_load_html\<close>, \<^verbatim>\<open>_load_xml\<close> and
  \<^verbatim>\<open>_dump_bs4\<close>, which the entries with \<^verbatim>\<open>common: False\<close> name: each wraps one call
  of its library.
\<close>

definition self_method :: "env \<Rightarrow> string \<Rightarrow> pyval \<Rightarrow> exn + pyval" where
  "self_method env fname v =
     (if fname = ''_load_csv'' then module_call env ''csv'' ''DictReader'' v
      else if fname = ''_dump_csv'' then module_call env ''csv'' ''DictWriter'' v
      else if fname = ''_load_html'' then module_call env ''bs4'' ''BeautifulSoup(lxml)'' v
      else if fname = ''_load_xml'' then module_call env ''bs4'' ''BeautifulSoup(lxml-xml)'' v
      else if fname = ''_dump_bs4'' then Inr (PStr (py_str env v))
      else Inl AttributeError)"

definition maybe_decode :: "env \<Rightarrow> pyval \<Rightarrow> string \<Rightarrow> exn + pyval" where
  "maybe_decode env v encoding =
     (case v of
        PBytes b \<Rightarrow>
          (case bytes_decode env encoding b of
             None \<Rightarrow> Inl (MessageException (Some (''decoding-'' @ encoding)))
           | Some s \<Rightarrow> Inr (PStr s))
      | _ \<Rightarrow> Inr v)"

text \<open>
  \<^verbatim>\<open>except Exception as err: raise MessageException(str(err), metric)\<close>: what leaves
  the \<^verbatim>\<open>try\<close> statement when its body raises \<open>err\<close>.
\<close>

fun reraised_as_message_exception :: "string \<Rightarrow> exn \<Rightarrow> exn" where
  "reraised_as_message_exception metric (BaseException n) = BaseException n"
| "reraised_as_message_exception metric err = MessageException (Some metric)"

definition maybe_invoke_serialization ::
  "env \<Rightarrow> pyval \<Rightarrow> string \<Rightarrow> string \<Rightarrow> consumer \<Rightarrow> (exn + pyval) \<times> consumer" where
  "maybe_invoke_serialization env v method_type key c =
     (case map_of (SERIALIZATION_MAP env) key of
        None \<Rightarrow> (Inl KeyError, c)
      | Some e \<Rightarrow>
          (let fname = (if method_type = ''load'' then ce_load e else ce_dump e);
               c1 = emit (ModuleCall (if ce_common e then ce_module e else ''self'') fname) c
           in case (if ce_common e then module_call env (ce_module e) fname v
                    else self_method env fname v) of
                Inl err \<Rightarrow>
                  (Inl (reraised_as_message_exception (''serialization-'' @ method_type) err), c1)
              | Inr r \<Rightarrow> (Inr r, c1)))"

definition charset :: "content_type_header \<Rightarrow> string" where
  "charset ct = (case map_of (ct_parameters ct) ''charset'' of None \<Rightarrow> ''utf-8'' | Some cs \<Rightarrow> cs)"

definition content_key :: "content_type_header \<Rightarrow> string" where
  "content_key ct = ct_type ct @ ''/'' @ ct_subtype ct"

definition maybe_decompress_body :: "env \<Rightarrow> consumer \<Rightarrow> (exn + pyval) \<times> consumer" where
  "maybe_decompress_body env c =
     (case c_message c of
        None \<Rightarrow> (Inl AttributeError, c)
      | Some m \<Rightarrow>
          (case content_encoding c of
             None \<Rightarrow> (Inr (PBytes (m_body m)), c)
           | Some enc \<Rightarrow>
               (case map_of CODEC_MAP enc of
                  None \<Rightarrow> (Inr (PBytes (m_body m)), c)
                | Some module_name \<Rightarrow>
                    (module_call env module_name ''decompress'' (PBytes (m_body m)),
                     emit (ModuleCall module_name ''decompress'') c))))"

definition maybe_deserialize_body :: "env \<Rightarrow> consumer \<Rightarrow> (exn + pyval) \<times> consumer" where
  "maybe_deserialize_body env c =
     (case content_type c of
        None \<Rightarrow> (Inr (c_message_body c), c)
      | Some cts \<Rightarrow>
          (case parse_content_type env cts of
             Inl e \<Rightarrow> (Inl e, c)
           | Inr ct \<Rightarrow>
               (case map_of (SERIALIZATION_MAP env) (content_key ct) of
                  None \<Rightarrow> (Inr (c_message_body c), c)
                | Some e \<Rightarrow>
                    if \<not> ce_enabled e then (Inr (c_message_body c), c)
                    else (case (if ce_binary e then Inr (c_message_body c)
                                else maybe_decode env (c_message_body c) (charset ct)) of
                            Inl err \<Rightarrow> (Inl err, c)
                          | Inr v \<Rightarrow> maybe_invoke_serialization env v ''load'' (content_key ct) c))))"

text \<open>
  The property \<^verbatim>\<open>SmartConsumer.body\<close>. The two assignments to \<^verbatim>\<open>self._message_body\<close>
  are separate statements: the first has happened when the second raises.
\<close>

definition smart_body :: "env \<Rightarrow> consumer \<Rightarrow> (exn + pyval) \<times> consumer" where
  "smart_body env c =
     (if truthy (c_message_body c) then (Inr (c_message_body c), c)
      else (case maybe_decompress_body env c of
              (Inl e, c1) \<Rightarrow> (Inl e, c1)
            | (Inr v, c1) \<Rightarrow>
                (case maybe_deserialize_body env (c1\<lparr>c_message_body := v\<rparr>) of
                   (Inl e, c2) \<Rightarrow> (Inl e, c2)
                 | (Inr w, c2) \<Rightarrow> (Inr w, c2\<lparr>c_message_body := w\<rparr>))))"

text \<open>
  The attribute \<^verbatim>\<open>body\<close>: the decoded body for a \<^verbatim>\<open>SmartConsumer\<close>, the opaque body of
  the message for a \<^verbatim>\<open>Consumer\<close>.
\<close>

definition body :: "env \<Rightarrow> consumer \<Rightarrow> (exn + pyval) \<times> consumer" where
  "body env c =
     (if c_smart c then smart_body env c
      else (case c_message c of None \<Rightarrow> (Inr PNone, c) | Some m \<Rightarrow> (Inr (PBytes (m_body m)), c)))"

definition serialize :: "env \<Rightarrow> pyval \<Rightarrow> content_type_header \<Rightarrow> consumer \<Rightarrow> (exn + pyval) \<times> consumer" where
  "serialize env v ct c =
     (case map_of (SERIALIZATION_MAP env) (content_key ct) of
        None \<Rightarrow> (Inl (ValueError (''Unsupported content-type: '' @ content_key ct)), c)
      | Some e \<Rightarrow>
          if \<not> ce_enabled e then (Inl (ValueError (''Disabled content-type: '' @ content_key ct)), c)
          else (case maybe_decode env v (charset ct) of
                  Inl err \<Rightarrow> (Inl err, c)
                | Inr v' \<Rightarrow> maybe_invoke_serialization env v' ''dump'' (content_key ct) c))"

definition compress :: "env \<Rightarrow> pyval \<Rightarrow> string \<Rightarrow> consumer \<Rightarrow> (exn + pyval) \<times> consumer" where
  "compress env v module_name c =
     (case (case v of
              PBytes b \<Rightarrow> Inr (PBytes b)
            | PStr s \<Rightarrow> Inr (PBytes (encode_utf8 env s))
            | _ \<Rightarrow> Inl AttributeError) of
        Inl e \<Rightarrow> (Inl e, c)
      | Inr b \<Rightarrow> (module_call env module_name ''compress'' b, emit (ModuleCall module_name ''compress'') c))"


section \<open>Consumer: finishing and publishing\<close>

text \<open>
  The extension point \<^verbatim>\<open>on_finish\<close> is code of the consumer application: it returns
  (\<open>None\<close>, as the \<^verbatim>\<open>pass\<close> of the base class does) or raises (\<open>Some e\<close>). The trace
  records its call. Of the logger, the warnings are in the trace; debug logging and the
  calls that report to Sentry change nothing of the consumer and are left out. A
  \<^verbatim>\<open>basic_publish\<close> on a channel is an event of the trace and does not raise.
\<close>

definition on_finish :: "exn option \<Rightarrow> consumer \<Rightarrow> exn option \<times> consumer" where
  "on_finish hook c = (hook, emit (Called ''on_finish'') c)"

definition finish :: "exn option \<Rightarrow> consumer \<Rightarrow> exn option \<times> consumer" where
  "finish hook c =
     (if c_finished c then (None, emit (Warning ''Finished called when already finished'') c)
      else on_finish hook (c\<lparr>c_finished := True\<rparr>))"

definition clear :: "consumer \<Rightarrow> consumer" where
  "clear c = c\<lparr>c_finished := False, c_message := None, c_message_body := PNone\<rparr>"

fun fmt_opt :: "string option \<Rightarrow> string" where
  "fmt_opt None = ''None''"
| "fmt_opt (Some s) = s"

definition publish_connection :: "consumer \<Rightarrow> string option \<Rightarrow> exn + (string \<times> connection)" where
  "publish_connection c name =
     (case (if truthy_str name then Inr (fmt_opt name)
            else (case c_message c of None \<Rightarrow> Inl AttributeError | Some m \<Rightarrow> Inr (m_connection m))) of
        Inl e \<Rightarrow> Inl e
      | Inr key \<Rightarrow>
          (case map_of (c_connections c) key of
             None \<Rightarrow> Inl (ValueError (''Channel '' @ fmt_opt name @ '' not found''))
           | Some conn \<Rightarrow>
               if \<not> cn_is_connected conn \<or> cn_channel_is_closed conn then Inl RabbitMQException
               else Inr (key, conn)))"

definition get_pika_properties :: "pydict \<Rightarrow> pydict" where
  "get_pika_properties properties_in = filter (\<lambda>kv. snd kv \<noteq> PNone) properties_in"

text \<open>The result is the position of the new pending confirmation, None without confirmations.\<close>

definition publisher_confirmation_future ::
  "string \<Rightarrow> string option \<Rightarrow> string option \<Rightarrow> pydict \<Rightarrow> consumer \<Rightarrow> (exn + nat option) \<times> consumer" where
  "publisher_confirmation_future name exch routing_key props c =
     (case map_of (c_connections c) name of
        None \<Rightarrow> (Inl KeyError, c)
      | Some conn \<Rightarrow>
          if cn_publisher_confirmations conn then
            (Inr (Some (length (cn_pending conn))),
             c\<lparr>c_connections :=
                 AList.update name (add_confirmation_future exch routing_key props conn) (c_connections c)\<rparr>)
          else (Inr None, c))"

text \<open>
  \<^verbatim>\<open>Consumer.publish_message\<close>. The duration recorded by \<^verbatim>\<open>track_duration\<close> is 0: the
  clock of \<open>env\<close> does not advance during the call.
\<close>

definition publish_message ::
  "env \<Rightarrow> string option \<Rightarrow> string option \<Rightarrow> pydict \<Rightarrow> pyval \<Rightarrow> string option \<Rightarrow> string option \<Rightarrow>
   consumer \<Rightarrow> (exn + nat option) \<times> consumer" where
  "publish_message env exch routing_key props bdy channel conn_name c =
     (case publish_connection c (or_str channel conn_name) of
        Inl e \<Rightarrow> (Inl e, c)
      | Inr (cname, conn) \<Rightarrow>
          (let basic_properties = get_pika_properties props in
           case c_measurement c of
             None \<Rightarrow> (Inl AttributeError, c)
           | Some ms \<Rightarrow>
               (let c1 = emit (BasicPublish \<lparr>pub_connection = cname, pub_exchange = exch,
                                 pub_routing_key = routing_key, pub_body = bdy,
                                 pub_properties = basic_properties,
                                 pub_mandatory = Some (cn_publisher_confirmations conn)\<rparr>) c;
                    r = publisher_confirmation_future cname exch routing_key basic_properties c1
                in (fst r,
                    (snd r)\<lparr>c_measurement := Some (add_duration
                        (''publish.'' @ fmt_opt exch @ ''.'' @ fmt_opt routing_key) 0 ms)\<rparr>))))"

definition is_string :: "pyval \<Rightarrow> bool" where
  "is_string v = (case v of PStr _ \<Rightarrow> True | PBytes _ \<Rightarrow> True | _ \<Rightarrow> False)"

text \<open>
  \<^verbatim>\<open>SmartConsumer.publish_message\<close>. A content type that is not a \<^verbatim>\<open>str\<close> makes the
  parser raise; a list or a dict as content encoding is unhashable.
\<close>

definition smart_publish_message ::
  "env \<Rightarrow> string option \<Rightarrow> string option \<Rightarrow> pydict \<Rightarrow> pyval \<Rightarrow> bool \<Rightarrow> bool \<Rightarrow> string option \<Rightarrow>
   string option \<Rightarrow> consumer \<Rightarrow> (exn + nat option) \<times> consumer" where
  "smart_publish_message env exch routing_key props bdy no_serialization no_encoding channel conn_name c =
     (case (if \<not> no_serialization \<and> \<not> is_string bdy \<and> truthy (dict_get props ''content_type'') then
              (case dict_get props ''content_type'' of
                 PStr s \<Rightarrow>
                   (case parse_content_type env s of
                      Inl e \<Rightarrow> (Inl e, c)
                    | Inr ct \<Rightarrow> serialize env bdy ct c)
               | _ \<Rightarrow> (Inl TypeError, c))
            else (Inr bdy, c)) of
        (Inl e, c1) \<Rightarrow> (Inl e, c1)
      | (Inr b1, c1) \<Rightarrow>
          (case (if no_encoding then (Inr b1, c1)
                 else (case dict_get props ''content_encoding'' of
                         PStr s \<Rightarrow>
                           (case map_of CODEC_MAP s of
                              None \<Rightarrow> (Inr b1, c1)
                            | Some module_name \<Rightarrow> compress env b1 module_name c1)
                       | PList _ \<Rightarrow> (Inl TypeError, c1)
                       | PDict _ \<Rightarrow> (Inl TypeError, c1)
                       | _ \<Rightarrow> (Inr b1, c1))) of
             (Inl e, c2) \<Rightarrow> (Inl e, c2)
           | (Inr b2, c2) \<Rightarrow>
               publish_message env exch routing_key props b2 (or_str channel conn_name) None c2))"

section \<open>Consumer: replies\<close>

text \<open>
  \<^verbatim>\<open>rpc_reply\<close> assigns into the dictionary it was given, so the dictionaries of the
  caller live in a store, by address; \<open>None\<close> is the argument \<^verbatim>\<open>properties=None\<close>.
\<close>

type_synonym store = "(nat \<times> pydict) list"

definition deref :: "store \<Rightarrow> nat \<Rightarrow> pydict" where
  "deref st a = (case map_of st a of None \<Rightarrow> [] | Some d \<Rightarrow> d)"

definition fresh :: "store \<Rightarrow> nat" where
  "fresh st = Suc (fold max (map fst st) 0)"

definition setitem :: "nat \<Rightarrow> string \<Rightarrow> pyval \<Rightarrow> store \<Rightarrow> store" where
  "setitem a k v st = AList.update a (AList.update k v (deref st a)) st"

text \<open>\<^verbatim>\<open>int(x)\<close> truncates towards zero.\<close>

definition py_int :: "rat \<Rightarrow> int" where
  "py_int x = (if 0 \<le> x then \<lfloor>x\<rfloor> else \<lceil>x\<rceil>)"

text \<open>
  \<^verbatim>\<open>properties = properties or {}\<close>: the dictionary of the caller when it is not
  empty, a new empty dictionary otherwise.
\<close>

definition properties_or_new :: "nat option \<Rightarrow> store \<Rightarrow> nat \<times> store" where
  "properties_or_new props st =
     (case props of
        None \<Rightarrow> (fresh st, AList.update (fresh st) [] st)
      | Some a \<Rightarrow> if deref st a \<noteq> [] then (a, st) else (fresh st, AList.update (fresh st) [] st))"

text \<open>
  The four assignments of \<^verbatim>\<open>rpc_reply\<close>; the result is the store and the number of
  \<^verbatim>\<open>uuid4\<close> calls made so far.
\<close>

definition reply_defaults :: "env \<Rightarrow> consumer \<Rightarrow> nat \<Rightarrow> store \<Rightarrow> store \<times> nat" where
  "reply_defaults env c a st =
     (let st1 = (if \<not> truthy (dict_get (deref st a) ''app_id'')
                 then setitem a ''app_id'' (PStr (c_name c)) st else st);
          st2 = (if \<not> truthy (dict_get (deref st1 a) ''correlation_id'') \<and> truthy_str (message_id c)
                 then setitem a ''correlation_id'' (opt_str (message_id c)) st1 else st1);
          fresh_id = \<not> truthy (dict_get (deref st2 a) ''message_id'');
          st3 = (if fresh_id then setitem a ''message_id'' (PStr (uuid4 env (c_uuids c))) st2 else st2);
          st4 = (if \<not> truthy (dict_get (deref st3 a) ''timestamp'')
                 then setitem a ''timestamp'' (PInt (py_int (now env))) st3 else st3)
      in (st4, if fresh_id then Suc (c_uuids c) else c_uuids c))"

text \<open>
  \<^verbatim>\<open>rpc_reply\<close> ends with \<^verbatim>\<open>self.publish_message(..., properties, body, connection)\<close>:
  the fifth positional parameter is \<^verbatim>\<open>channel\<close> in \<^verbatim>\<open>Consumer.publish_message\<close> and
  \<^verbatim>\<open>no_serialization\<close> in \<^verbatim>\<open>SmartConsumer.publish_message\<close>.
\<close>

definition rpc_reply ::
  "env \<Rightarrow> pyval \<Rightarrow> nat option \<Rightarrow> string option \<Rightarrow> string option \<Rightarrow> string option \<Rightarrow>
   consumer \<times> store \<Rightarrow> (exn + nat option) \<times> consumer \<times> store" where
  "rpc_reply env bdy props exch reply_to_arg conn_name cs =
     (let c = fst cs; st = snd cs in
      if reply_to_arg = None \<and> reply_to c = None then
        (Inl (ValueError ''Missing reply_to routing key''), c, st)
      else
        (let a = fst (properties_or_new props st);
             d = reply_defaults env c a (snd (properties_or_new props st));
             c1 = c\<lparr>c_uuids := snd d\<rparr>;
             r = (if c_smart c1 then
                    smart_publish_message env (or_str exch (exchange c1)) (or_str reply_to_arg (reply_to c1))
                      (deref (fst d) a) bdy (truthy_str conn_name) False None None c1
                  else
                    publish_message env (or_str exch (exchange c1)) (or_str reply_to_arg (reply_to c1))
                      (deref (fst d) a) bdy conn_name None c1)
         in (fst r, snd r, fst d)))"


section \<open>Consumer: republishing\<close>

definition PROCESSING_EXCEPTIONS :: string where
  "PROCESSING_EXCEPTIONS = ''X-Processing-Exceptions''"

fun opt_int :: "int option \<Rightarrow> pyval" where
  "opt_int None = PNone"
| "opt_int (Some i) = PInt i"

fun opt_dict :: "pydict option \<Rightarrow> pyval" where
  "opt_dict None = PNone"
| "opt_dict (Some d) = PDict d"

text \<open>
  \<^verbatim>\<open>dict(self._message.properties)\<close>, with the attributes that are set: one that is
  None is to \<^verbatim>\<open>pika.BasicProperties(**properties)\<close> what a missing one is.
\<close>

definition dict_of_properties :: "properties \<Rightarrow> pydict" where
  "dict_of_properties p =
     filter (\<lambda>kv. snd kv \<noteq> PNone)
       [(''app_id'', opt_str (p_app_id p)),
        (''content_encoding'', opt_str (p_content_encoding p)),
        (''content_type'', opt_str (p_content_type p)),
        (''correlation_id'', opt_str (p_correlation_id p)),
        (''expiration'', opt_str (p_expiration p)),
        (''headers'', opt_dict (p_headers p)),
        (''message_id'', opt_str (p_message_id p)),
        (''priority'', opt_int (p_priority p)),
        (''reply_to'', opt_str (p_reply_to p)),
        (''timestamp'', opt_int (p_timestamp p)),
        (''type'', opt_str (p_type p)),
        (''user_id'', opt_str (p_user_id p))]"

text \<open>
  \<^verbatim>\<open>properties['headers']\<close> of the copy: the header table of the message itself when it
  is set and not empty (the copy is shallow), a new empty table otherwise.
\<close>

definition copied_headers :: "message \<Rightarrow> pydict" where
  "copied_headers m = (case p_headers (m_properties m) of None \<Rightarrow> [] | Some h \<Rightarrow> h)"

text \<open>
  The message after the header table of the copy has become \<open>h\<close>: the table of the
  message is the same object unless it was unset or empty.
\<close>

definition share_headers :: "pydict \<Rightarrow> message \<Rightarrow> message" where
  "share_headers h m =
     (if copied_headers m = [] then m
      else m\<lparr>m_properties := (m_properties m)\<lparr>p_headers := Some h\<rparr>\<rparr>)"

definition dropped_headers :: "env \<Rightarrow> string \<Rightarrow> string \<Rightarrow> message \<Rightarrow> pydict" where
  "dropped_headers env cname reason m =
     AList.update ''X-Original-Exchange'' (PStr (m_exchange m))
       (AList.update ''X-Dropped-Timestamp'' (PStr (utcnow_iso env))
          (AList.update ''X-Dropped-Reason'' (PStr reason)
             (AList.update ''X-Dropped-By'' (PStr cname) (copied_headers m))))"

definition republish_dropped_message :: "env \<Rightarrow> string \<Rightarrow> consumer \<Rightarrow> exn option \<times> consumer" where
  "republish_dropped_message env reason c =
     (case c_message c of
        None \<Rightarrow> (Some AttributeError, c)
      | Some m \<Rightarrow>
          (let h = dropped_headers env (c_name c) reason m;
               props = AList.update ''headers'' (PDict h) (dict_of_properties (m_properties m))
           in (None,
               emit (BasicPublish \<lparr>pub_connection = m_connection m, pub_exchange = c_drop_exchange c,
                        pub_routing_key = Some (m_routing_key m), pub_body = PBytes (m_body m),
                        pub_properties = props, pub_mandatory = None\<rparr>)
                 (c\<lparr>c_message := Some (share_headers h m)\<rparr>))))"

text \<open>
  The counter of \<^verbatim>\<open>_republish_processing_error\<close>: 1 for a missing key, the value plus one
  otherwise, 1 when the addition raises \<^verbatim>\<open>TypeError\<close>.
\<close>

definition count_processing_error :: "env \<Rightarrow> pydict \<Rightarrow> pydict" where
  "count_processing_error env h =
     (case map_of h PROCESSING_EXCEPTIONS of
        None \<Rightarrow> AList.update PROCESSING_EXCEPTIONS (PInt 1) h
      | Some v \<Rightarrow>
          (case py_add_int (float_add env) v 1 of
             Inl err \<Rightarrow> AList.update PROCESSING_EXCEPTIONS (PInt 1) h
           | Inr w \<Rightarrow> AList.update PROCESSING_EXCEPTIONS w h))"

definition processing_error_headers :: "env \<Rightarrow> string \<Rightarrow> message \<Rightarrow> pydict" where
  "processing_error_headers env error m =
     count_processing_error env
       (if error \<noteq> [] then AList.update ''X-Processing-Exception'' (PStr error) (copied_headers m)
        else copied_headers m)"

definition republish_processing_error ::
  "env \<Rightarrow> string \<Rightarrow> consumer \<Rightarrow> exn option \<times> consumer" where
  "republish_processing_error env error c =
     (case c_message c of
        None \<Rightarrow> (Some AttributeError, c)
      | Some m \<Rightarrow>
          (let h = processing_error_headers env error m;
               props = AList.update ''headers'' (PDict h) (dict_of_properties (m_properties m))
           in (None,
               emit (BasicPublish \<lparr>pub_connection = m_connection m,
                        pub_exchange = Some (c_error_exchange c),
                        pub_routing_key = Some (m_routing_key m), pub_body = PBytes (m_body m),
                        pub_properties = props, pub_mandatory = None\<rparr>)
                 (c\<lparr>c_message := Some (share_headers h m)\<rparr>))))"

section \<open>The extension points prepare and process\<close>

text \<open>
  The code of a consumer application, as far as the engine can see it: a sequence of
  steps, each of which calls \<^verbatim>\<open>self.finish()\<close>, does work of its own (a label in the
  trace), reads \<^verbatim>\<open>self.body\<close>, or raises. An extension point runs \<open>sync_steps\<close> when it
  is called; when it is a coroutine it returns a future, and \<open>future_steps\<close> run while
  \<^verbatim>\<open>execute\<close> waits at \<^verbatim>\<open>yield result\<close>. An exception ends the steps, as no step
  catches; the exception of an \<^verbatim>\<open>on_finish\<close> that raises leaves the call of
  \<^verbatim>\<open>self.finish()\<close>. \<open>u_on_finish\<close> is what \<^verbatim>\<open>on_finish\<close> does.
\<close>

datatype step = Finish | Work string | ReadBody | Raise exn

record user_fn =
  sync_steps :: "step list"
  future_steps :: "step list option"

record user =
  u_prepare :: user_fn
  u_process :: user_fn
  u_on_finish :: "exn option"

fun run_step :: "env \<Rightarrow> exn option \<Rightarrow> step \<Rightarrow> consumer \<Rightarrow> exn option \<times> consumer" where
  "run_step env hook Finish c = finish hook c"
| "run_step env hook (Work l) c = (None, emit (UserStep l) c)"
| "run_step env hook ReadBody c =
     (case body env c of (Inl e, c1) \<Rightarrow> (Some e, c1) | (Inr v, c1) \<Rightarrow> (None, c1))"
| "run_step env hook (Raise e) c = (Some e, c)"

fun run_steps :: "env \<Rightarrow> exn option \<Rightarrow> step list \<Rightarrow> consumer \<Rightarrow> exn option \<times> consumer" where
  "run_steps env hook [] c = (None, c)"
| "run_steps env hook (s # ss) c =
     (case run_step env hook s c of
        (Some e, c1) \<Rightarrow> (Some e, c1)
      | (None, c1) \<Rightarrow> run_steps env hook ss c1)"

text \<open>
  \<^verbatim>\<open>result = self.f(); if concurrent.is_future(result): yield result\<close>. The trace has
  \<open>Called\<close> when the extension point is entered and \<open>Returned\<close> when it has completed,
  its future included.
\<close>

definition call_user ::
  "env \<Rightarrow> exn option \<Rightarrow> string \<Rightarrow> user_fn \<Rightarrow> consumer \<Rightarrow> exn option \<times> consumer" where
  "call_user env hook nm f c =
     (case run_steps env hook (sync_steps f) (emit (Called nm) c) of
        (Some e, c1) \<Rightarrow> (Some e, c1)
      | (None, c1) \<Rightarrow>
          (case future_steps f of
             None \<Rightarrow> (None, emit (Returned nm) c1)
           | Some ss \<Rightarrow>
               (case run_steps env hook ss c1 of
                  (Some e, c2) \<Rightarrow> (Some e, c2)
                | (None, c2) \<Rightarrow> (None, emit (Returned nm) c2))))"

section \<open>Consumer.execute\<close>

definition MESSAGE_AGE_KEY :: string where
  "MESSAGE_AGE_KEY = ''message_age''"

text \<open>
  Lines 883 to 889: the age of the message, when its timestamp is set. The key is the one
  that \<^verbatim>\<open>message_age_key\<close> of the base class returns.
\<close>

definition message_age :: "env \<Rightarrow> message \<Rightarrow> measurement \<Rightarrow> measurement" where
  "message_age env message_in ms =
     (case p_timestamp (m_properties message_in) of
        None \<Rightarrow> ms
      | Some t \<Rightarrow>
          if t = 0 then ms
          else (let age = max (of_int t) (now env) - of_int t
                in if 0 < age then add_duration MESSAGE_AGE_KEY age ms else ms))"

text \<open>Lines 891 to 894: the correlation id, and the number of \<^verbatim>\<open>uuid4\<close> calls after it.\<close>

definition new_correlation_id :: "env \<Rightarrow> message \<Rightarrow> nat \<Rightarrow> string option \<times> nat" where
  "new_correlation_id env message_in n =
     (if truthy_str (p_correlation_id (m_properties message_in))
        then (p_correlation_id (m_properties message_in), n)
      else if truthy_str (p_message_id (m_properties message_in))
        then (p_message_id (m_properties message_in), n)
      else (Some (uuid4 env n), Suc n))"

text \<open>Lines 904 to 908: whether a message type is configured, and whether it matches.\<close>

fun type_configured :: "type_spec option \<Rightarrow> bool" where
  "type_configured None = False"
| "type_configured (Some (OneType t)) = (t \<noteq> [])"
| "type_configured (Some (ManyTypes ts)) = (ts \<noteq> [])"

fun message_supported :: "type_spec option \<Rightarrow> string option \<Rightarrow> bool" where
  "message_supported None mt = True"
| "message_supported (Some (OneType t)) mt = (mt = Some t)"
| "message_supported (Some (ManyTypes ts)) mt = (case mt of None \<Rightarrow> False | Some t \<Rightarrow> t \<in> set ts)"

fun max_retry_configured :: "int option \<Rightarrow> bool" where
  "max_retry_configured None = False"
| "max_retry_configured (Some n) = (n \<noteq> 0)"

text \<open>Lines 878 to 894: the state of the consumer is reset for the message.\<close>

definition begin_execute :: "env \<Rightarrow> message \<Rightarrow> measurement \<Rightarrow> consumer \<Rightarrow> consumer" where
  "begin_execute env message_in ms c0 =
     (let cid = new_correlation_id env message_in (c_uuids c0)
      in (clear c0)\<lparr>c_message := Some message_in,
                     c_measurement := Some (message_age env message_in ms),
                     c_correlation_id := fst cid, c_uuids := snd cid\<rparr>)"

text \<open>
  Lines 896 to 898: \<^verbatim>\<open>self._connections[message_in.connection].correlation_id = ...\<close>
  raises \<^verbatim>\<open>KeyError\<close> for a connection that the consumer does not have.
\<close>

definition connection_correlation_id :: "message \<Rightarrow> consumer \<Rightarrow> exn + consumer" where
  "connection_correlation_id message_in c =
     (case map_of (c_connections c) (m_connection message_in) of
        None \<Rightarrow> Inl KeyError
      | Some conn \<Rightarrow>
          Inr (c\<lparr>c_connections := AList.update (m_connection message_in)
                     (conn\<lparr>cn_correlation_id := c_correlation_id c\<rparr>) (c_connections c)\<rparr>))"

text \<open>
  \<^verbatim>\<open>if self._drop_exchange: self._republish_dropped_message(reason)\<close> followed by
  \<^verbatim>\<open>raise gen.Return(data.MESSAGE_DROP)\<close>, as both filters end.
\<close>

definition drop_message :: "env \<Rightarrow> string \<Rightarrow> consumer \<Rightarrow> (exn + outcome) \<times> consumer" where
  "drop_message env reason c =
     (if truthy_str (c_drop_exchange c) then
        (case republish_dropped_message env reason c of
           (Some e, c1) \<Rightarrow> (Inl e, c1)
         | (None, c1) \<Rightarrow> (Inr MESSAGE_DROP, c1))
      else (Inr MESSAGE_DROP, c))"

text \<open>
  Lines 903 to 918, the type filter: \<open>Some r\<close> when \<^verbatim>\<open>execute\<close> ends there, \<open>None\<close>
  when it goes on.
\<close>

definition type_filter :: "env \<Rightarrow> consumer \<Rightarrow> (exn + outcome) option \<times> consumer" where
  "type_filter env c =
     (if type_configured (c_message_type c)
         \<and> \<not> message_supported (c_message_type c) (message_type c) then
        (let c1 = emit (Warning ''Received unsupported message type'') c in
         if c_drop_invalid c1 then
           (Some (fst (drop_message env ''invalid type'' c1)), snd (drop_message env ''invalid type'' c1))
         else (Some (Inr MESSAGE_EXCEPTION), c1))
      else (None, c))"

text \<open>
  Lines 920 to 929, the retry filter. The comparison raises \<^verbatim>\<open>TypeError\<close> for a counter
  that does not compare with an integer.
\<close>

definition retry_filter :: "env \<Rightarrow> consumer \<Rightarrow> (exn + outcome) option \<times> consumer" where
  "retry_filter env c =
     (if max_retry_configured (c_error_max_retry c) then
        (case map_of (headers c) PROCESSING_EXCEPTIONS of
           None \<Rightarrow> (None, c)
         | Some v \<Rightarrow>
             (case py_ge v (case c_error_max_retry c of None \<Rightarrow> 0 | Some n \<Rightarrow> n) of
                Inl e \<Rightarrow> (Some (Inl e), c)
              | Inr False \<Rightarrow> (None, c)
              | Inr True \<Rightarrow>
                  (let c1 = emit (Warning ''Dropping message due to ERROR_MAX_RETRY'') c;
                       r = drop_message env (''max retries ('' @ py_str env v @ '')'') c1
                   in (Some (fst r), snd r))))
      else (None, c))"

text \<open>
  Lines 878 to 929, all that \<^verbatim>\<open>execute\<close> does before its \<^verbatim>\<open>try\<close>. The result is
  \<open>Some r\<close> when \<^verbatim>\<open>execute\<close> ends there: with the outcome of the type filter or of the
  retry filter, or with an exception (an unknown connection, a retry counter that does
  not compare with an integer). It is \<open>None\<close> when the \<^verbatim>\<open>try\<close> is entered.
\<close>

definition before_try ::
  "env \<Rightarrow> message \<Rightarrow> measurement \<Rightarrow> consumer \<Rightarrow> (exn + outcome) option \<times> consumer" where
  "before_try env message_in ms c0 =
     (case connection_correlation_id message_in (begin_execute env message_in ms c0) of
        Inl e \<Rightarrow> (Some (Inl e), begin_execute env message_in ms c0)
      | Inr c \<Rightarrow>
          (case type_filter env c of
             (Some r, c1) \<Rightarrow> (Some r, c1)
           | (None, c1) \<Rightarrow> retry_filter env c1))"

text \<open>Lines 933 to 940, the body of the \<^verbatim>\<open>try\<close>.\<close>

definition prepare_and_process :: "env \<Rightarrow> user \<Rightarrow> consumer \<Rightarrow> exn option \<times> consumer" where
  "prepare_and_process env u c =
     (case call_user env (u_on_finish u) ''prepare'' (u_prepare u) c of
        (Some e, c1) \<Rightarrow> (Some e, c1)
      | (None, c1) \<Rightarrow>
          if \<not> c_finished c1 then call_user env (u_on_finish u) ''process'' (u_process u) c1
          else (None, c1))"

definition tag_exception :: "exn \<Rightarrow> string option \<Rightarrow> consumer \<Rightarrow> consumer" where
  "tag_exception e metric c =
     (let c1 = measurement_set_tag ''exception'' (class_name e) c in
      if truthy_str metric then measurement_set_tag ''error'' (fmt_opt metric) c1 else c1)"

text \<open>
  Lines 942 to 999, the \<^verbatim>\<open>except\<close> clauses in their order. The result is \<open>Inr\<close>
  for the outcome that the clause returns, and \<open>Inl\<close> for an exception that is on its
  way out of the \<^verbatim>\<open>try\<close> statement: one that the clause itself raised, or one that no
  clause has caught, the last clause being \<^verbatim>\<open>except Exception\<close>.
\<close>

fun handle_exception :: "env \<Rightarrow> exn \<Rightarrow> consumer \<Rightarrow> (exn + outcome) \<times> consumer" where
  "handle_exception env RabbitMQException c =
     (Inr RABBITMQ_EXCEPTION, measurement_set_tag ''exception'' ''RabbitMQException'' c)"
| "handle_exception env (ConfigurationException metric) c =
     (Inr CONFIGURATION_EXCEPTION, tag_exception (ConfigurationException metric) metric c)"
| "handle_exception env (ConsumerException metric) c =
     (Inr CONSUMER_EXCEPTION, tag_exception (ConsumerException metric) metric c)"
| "handle_exception env (MessageException metric) c =
     (Inr MESSAGE_EXCEPTION, tag_exception (MessageException metric) metric c)"
| "handle_exception env (ProcessingException metric) c =
     (case republish_processing_error env
             (if truthy_str metric then fmt_opt metric else ''ProcessingException'')
             (tag_exception (ProcessingException metric) metric c) of
        (Some e, c1) \<Rightarrow> (Inl e, c1)
      | (None, c1) \<Rightarrow> (Inr PROCESSING_EXCEPTION, c1))"
| "handle_exception env NotImplementedError c =
     (Inr UNHANDLED_EXCEPTION, measurement_set_tag ''exception'' ''NotImplementedError'' c)"
| "handle_exception env (BaseException n) c = (Inl (BaseException n), c)"
| "handle_exception env e c =
     (Inr UNHANDLED_EXCEPTION, measurement_set_tag ''exception'' ''UnhandledException'' c)"

text \<open>Lines 1001 to 1003, the \<^verbatim>\<open>finally\<close> clause.\<close>

definition finally_clause :: "exn option \<Rightarrow> consumer \<Rightarrow> exn option \<times> consumer" where
  "finally_clause hook c = (if \<not> c_finished c then finish hook c else (None, c))"

text \<open>
  Leaving the \<^verbatim>\<open>try\<close> statement with \<open>r\<close> pending, a return or an exception: the
  \<^verbatim>\<open>finally\<close> clause runs, and an exception that it raises replaces \<open>r\<close>.
\<close>

definition leave_try ::
  "exn option \<Rightarrow> (exn + outcome) \<times> consumer \<Rightarrow> (exn + outcome) \<times> consumer" where
  "leave_try hook rc =
     (case finally_clause hook (snd rc) of
        (Some f, c1) \<Rightarrow> (Inl f, c1)
      | (None, c1) \<Rightarrow> (fst rc, c1))"

text \<open>Lines 1005 to 1007.\<close>

definition clear_all_futures :: "consumer \<Rightarrow> consumer" where
  "clear_all_futures c =
     c\<lparr>c_connections := map (\<lambda>kv. (fst kv, clear_confirmation_futures (snd kv))) (c_connections c)\<rparr>"

text \<open>
  Lines 931 to 1010: the \<^verbatim>\<open>try\<close> statement and what follows it. The futures are
  cleared and \<^verbatim>\<open>MESSAGE_ACK\<close> is returned when the statement was left without an
  exception.
\<close>

definition try_block :: "env \<Rightarrow> user \<Rightarrow> consumer \<Rightarrow> (exn + outcome) \<times> consumer" where
  "try_block env u c =
     (case prepare_and_process env u c of
        (Some e, c1) \<Rightarrow> leave_try (u_on_finish u) (handle_exception env e c1)
      | (None, c1) \<Rightarrow>
          (case finally_clause (u_on_finish u) c1 of
             (Some f, c2) \<Rightarrow> (Inl f, c2)
           | (None, c2) \<Rightarrow> (Inr MESSAGE_ACK, clear_all_futures c2)))"

text \<open>
  \<^verbatim>\<open>Consumer.execute\<close>: \<open>Inr\<close> is the outcome it returns, \<open>Inl\<close> an exception that leaves
  it.
\<close>

definition execute ::
  "env \<Rightarrow> user \<Rightarrow> message \<Rightarrow> measurement \<Rightarrow> consumer \<Rightarrow> (exn + outcome) \<times> consumer" where
  "execute env u message_in ms c0 =
     (case before_try env message_in ms c0 of
        (Some r, c) \<Rightarrow> (r, c)
      | (None, c) \<Rightarrow> try_block env u c)"


section \<open>Observations on the trace\<close>

text \<open>How often \<^verbatim>\<open>on_finish\<close>, \<^verbatim>\<open>process\<close> and a function of a codec module were called.\<close>

definition finish_calls :: "consumer \<Rightarrow> nat" where
  "finish_calls c = count_list (c_trace c) (Called ''on_finish'')"

definition process_calls :: "consumer \<Rightarrow> nat" where
  "process_calls c = count_list (c_trace c) (Called ''process'')"

definition module_calls :: "string \<Rightarrow> string \<Rightarrow> consumer \<Rightarrow> nat" where
  "module_calls m f c = count_list (c_trace c) (ModuleCall m f)"

fun is_publish :: "event \<Rightarrow> bool" where
  "is_publish (BasicPublish p) = True"
| "is_publish ev = False"

definition publishes :: "consumer \<Rightarrow> event list" where
  "publishes c = filter is_publish (c_trace c)"

text \<open>The last publish of the trace.\<close>

fun last_publish_of :: "event list \<Rightarrow> publish option" where
  "last_publish_of [] = None"
| "last_publish_of (BasicPublish p # evs) =
     (case last_publish_of evs of None \<Rightarrow> Some p | Some q \<Rightarrow> Some q)"
| "last_publish_of (ev # evs) = last_publish_of evs"

definition last_publish :: "consumer \<Rightarrow> publish option" where
  "last_publish c = last_publish_of (c_trace c)"

text \<open>A header of the last publish.\<close>

definition last_published_header :: "string \<Rightarrow> consumer \<Rightarrow> pyval option" where
  "last_published_header k c =
     (case last_publish c of
        None \<Rightarrow> None
      | Some p \<Rightarrow>
          (case map_of (pub_properties p) ''headers'' of
             Some (PDict h) \<Rightarrow> map_of h k
           | _ \<Rightarrow> None))"

text \<open>The header table among published properties (empty when there is none).\<close>

definition published_headers :: "pydict \<Rightarrow> pydict" where
  "published_headers props = (case map_of props ''headers'' of Some (PDict h) \<Rightarrow> h | _ \<Rightarrow> [])"

text \<open>The steps of an extension point, those of its future included.\<close>

definition all_steps :: "user_fn \<Rightarrow> step list" where
  "all_steps f = sync_steps f @ (case future_steps f of None \<Rightarrow> [] | Some ss \<Rightarrow> ss)"

section \<open>A concrete consumer\<close>

text \<open>
  An environment, a consumer with one open connection, and a message, for evaluating
  the definitions: the content type parser splits at the first slash, bytes are ASCII,
  and the JSON codec knows the documents \<^verbatim>\<open>[]\<close> and \<^verbatim>\<open>[1]\<close>.
\<close>

definition demo_parse :: "string \<Rightarrow> exn + content_type_header" where
  "demo_parse s =
     (if CHR ''/'' \<in> set s then
        Inr \<lparr>ct_type = takeWhile (\<lambda>ch. ch \<noteq> CHR ''/'') s,
             ct_subtype = tl (dropWhile (\<lambda>ch. ch \<noteq> CHR ''/'') s),
             ct_parameters = []\<rparr>
      else Inl (ValueError ''not a content type''))"

definition demo_module_call :: "string \<Rightarrow> string \<Rightarrow> pyval \<Rightarrow> exn + pyval" where
  "demo_module_call m f v =
     (if m = ''json'' \<and> f = ''loads'' \<and> v = PStr ''[]'' then Inr (PList [])
      else if m = ''json'' \<and> f = ''loads'' \<and> v = PStr ''[1]'' then Inr (PList [PInt 1])
      else if m = ''json'' \<and> f = ''dumps'' \<and> v = PList [] then Inr (PStr ''[]'')
      else if m = ''json'' \<and> f = ''dumps'' \<and> v = PList [PInt 1] then Inr (PStr ''[1]'')
      else Inl (OtherException ''error''))"

definition demo_str :: "pyval \<Rightarrow> string" where
  "demo_str v =
     (case v of
        PStr s \<Rightarrow> s
      | PInt i \<Rightarrow> (if 0 \<le> i \<and> i < 10 then [''0123456789'' ! nat i] else ''int'')
      | _ \<Rightarrow> ''object'')"

text \<open>
  The float addition of the examples. It is exact on finite floats, and there it is
  Python's whenever the exact sum is a double, as 2.5 + 1 = 3.5 of the examples is;
  where Python rounds the sum (0.1 + 1, or 2 to the power 53 plus 1) it is not Python's,
  and no example uses it there. An infinity and not-a-number absorb the integer.
\<close>

fun demo_float_add :: "pyfloat \<Rightarrow> int \<Rightarrow> pyfloat" where
  "demo_float_add (Finite x) n = Finite (x + of_int n)"
| "demo_float_add x n = x"

definition demo_env :: env where
  "demo_env =
     \<lparr>now = 1700000000, utcnow_iso = ''2023-11-14T22:13:20'',
      uuid4 = (\<lambda>n. ''uuid-'' @ replicate n CHR ''i''), py_str = demo_str,
      parse_content_type = demo_parse, installed = [],
      bytes_decode = (\<lambda>encoding b. Some b), encode_utf8 = (\<lambda>s. s),
      module_call = demo_module_call, float_add = demo_float_add\<rparr>"

definition demo_connection :: connection where
  "demo_connection =
     \<lparr>cn_is_connected = True, cn_channel_is_closed = False, cn_publisher_confirmations = False,
      cn_correlation_id = None, cn_pending = []\<rparr>"

definition demo_properties :: properties where
  "demo_properties =
     \<lparr>p_app_id = None, p_content_encoding = None, p_content_type = None,
      p_correlation_id = None, p_expiration = None, p_headers = None,
      p_message_id = Some ''m-1'', p_priority = None, p_reply_to = None, p_timestamp = None,
      p_type = Some ''order'', p_user_id = None\<rparr>"

definition demo_message :: message where
  "demo_message =
     \<lparr>m_connection = ''amqp'', m_delivery_tag = 1, m_exchange = ''orders'',
      m_routing_key = ''order.created'', m_redelivered = False, m_body = ''[]'',
      m_properties = demo_properties\<rparr>"

definition demo_measurement :: measurement where
  "demo_measurement = \<lparr>durations = [], tags = []\<rparr>"

definition demo_consumer :: consumer where
  "demo_consumer =
     \<lparr>c_name = ''Worker'', c_smart = False, c_connections = [(''amqp'', demo_connection)],
      c_correlation_id = None, c_drop_exchange = None, c_drop_invalid = False,
      c_error_exchange = ''errors'', c_error_max_retry = None, c_finished = False,
      c_message = None, c_message_type = None, c_measurement = None,
      c_message_body = PNone, c_uuids = 0, c_trace = []\<rparr>"

text \<open>The same consumer while it processes \<open>m\<close>.\<close>

definition processing :: "message \<Rightarrow> consumer \<Rightarrow> consumer" where
  "processing m c = c\<lparr>c_message := Some m, c_measurement := Some demo_measurement\<rparr>"

text \<open>The message with a header table, a content type, a type.\<close>

definition with_headers :: "pydict \<Rightarrow> message \<Rightarrow> message" where
  "with_headers h m = m\<lparr>m_properties := (m_properties m)\<lparr>p_headers := Some h\<rparr>\<rparr>"

definition with_content_type :: "string \<Rightarrow> message \<Rightarrow> message" where
  "with_content_type t m = m\<lparr>m_properties := (m_properties m)\<lparr>p_content_type := Some t\<rparr>\<rparr>"

definition with_reply_to :: "string \<Rightarrow> message \<Rightarrow> message" where
  "with_reply_to r m = m\<lparr>m_properties := (m_properties m)\<lparr>p_reply_to := Some r\<rparr>\<rparr>"

definition demo_user :: user where
  "demo_user =
     \<lparr>u_prepare = \<lparr>sync_steps = [Work ''validate''], future_steps = Some [Work ''lookup'']\<rparr>,
      u_process = \<lparr>sync_steps = [Work ''handle''], future_steps = None\<rparr>,
      u_on_finish = None\<rparr>"



definition retry_consumer :: consumer where
  "retry_consumer = demo_consumer\<lparr>c_error_max_retry := Some 3\<rparr>"

definition retried :: "int \<Rightarrow> message" where
  "retried k = with_headers [(''X-Processing-Exceptions'', PInt k)] demo_message"

definition raising_user :: "exn \<Rightarrow> user" where
  "raising_user e =
     \<lparr>u_prepare = \<lparr>sync_steps = [Work ''validate''], future_steps = None\<rparr>,
      u_process = \<lparr>sync_steps = [Work ''handle''], future_steps = Some [Raise e]\<rparr>,
      u_on_finish = None\<rparr>"

text \<open>
  User code whose \<^verbatim>\<open>process\<close> is a plain method that calls \<^verbatim>\<open>sys.exit()\<close>; user code
  whose \<^verbatim>\<open>process\<close> raises \<^verbatim>\<open>ProcessingException\<close> and whose \<^verbatim>\<open>on_finish\<close> raises
  \<^verbatim>\<open>IOError\<close>; a message whose retry counter is the string \<^verbatim>\<open>3\<close>; and a message
  from a connection that the consumer does not have.
\<close>

definition exiting_user :: user where
  "exiting_user =
     \<lparr>u_prepare = \<lparr>sync_steps = [Work ''validate''], future_steps = None\<rparr>,
      u_process = \<lparr>sync_steps = [Work ''handle'', Raise (BaseException ''SystemExit'')],
                   future_steps = None\<rparr>,
      u_on_finish = None\<rparr>"

definition failing_hook_user :: user where
  "failing_hook_user =
     \<lparr>u_prepare = \<lparr>sync_steps = [Work ''validate''], future_steps = None\<rparr>,
      u_process = \<lparr>sync_steps = [Raise (ProcessingException None)], future_steps = None\<rparr>,
      u_on_finish = Some (OtherException ''IOError'')\<rparr>"



definition finishing_user :: user where
  "finishing_user =
     \<lparr>u_prepare = \<lparr>sync_steps = [Work ''validate''], future_steps = Some [Finish]\<rparr>,
      u_process = \<lparr>sync_steps = [Work ''handle''], future_steps = None\<rparr>,
      u_on_finish = None\<rparr>"

text \<open>
  A consumer that derives from \<^verbatim>\<open>SmartConsumer\<close>, a message whose body is a JSON
  document, reading \<^verbatim>\<open>self.body\<close> twice, and a store whose only dictionary, at
  address 0, is \<open>d\<close>.
\<close>

definition smart_consumer :: consumer where
  "smart_consumer = demo_consumer\<lparr>c_smart := True\<rparr>"

definition json_message :: "string \<Rightarrow> message" where
  "json_message b = with_content_type ''application/json'' (demo_message\<lparr>m_body := b\<rparr>)"

definition read_twice :: "env \<Rightarrow> consumer \<Rightarrow> ((exn + pyval) \<times> (exn + pyval)) \<times> consumer" where
  "read_twice env c = ((fst (body env c), fst (body env (snd (body env c)))),
                       snd (body env (snd (body env c))))"

definition one_dict :: "pydict \<Rightarrow> store" where
  "one_dict d = [(0, d)]"

text \<open>The dictionary that the caller of \<^verbatim>\<open>rpc_reply\<close> passed (empty for None).\<close>

definition given_properties :: "nat option \<Rightarrow> store \<Rightarrow> pydict" where
  "given_properties props st = (case props of None \<Rightarrow> [] | Some a \<Rightarrow> deref st a)"

text \<open>The consumer while it processes a message that asks for replies on \<^verbatim>\<open>replies\<close>.\<close>

definition replying_consumer :: consumer where
  "replying_consumer = processing (with_reply_to ''replies'' demo_message) demo_consumer"

section \<open>What user code can change\<close>

text \<open>
  The events a step of user code adds to the trace, the number of \<^verbatim>\<open>on_finish\<close> calls
  that there will be when the message is finished (those made, and one more while
  \<^verbatim>\<open>self._finished\<close> is false), and the relation between the consumer before and after
  steps of user code. \<open>grows_by P\<close> relates two consumers when the trace of the second is
  the trace of the first with events that satisfy \<open>P\<close> added.
\<close>

fun user_event :: "event \<Rightarrow> bool" where
  "user_event (Called n) = (n = ''on_finish'')"
| "user_event (Returned n) = False"
| "user_event (BasicPublish p) = False"
| "user_event ev = True"

definition finish_due :: "consumer \<Rightarrow> nat" where
  "finish_due c = finish_calls c + (if c_finished c then 0 else 1)"

definition user_frame :: "consumer \<Rightarrow> consumer \<Rightarrow> bool" where
  "user_frame c c' \<longleftrightarrow>
     (\<exists>evs. c_trace c' = c_trace c @ evs \<and> list_all user_event evs)
     \<and> finish_due c' = finish_due c
     \<and> (c_finished c \<longrightarrow> c_finished c')
     \<and> c_message c' = c_message c"

fun is_call :: "event \<Rightarrow> bool" where
  "is_call (Called n) = True"
| "is_call ev = False"

definition grows_by :: "(event \<Rightarrow> bool) \<Rightarrow> consumer \<Rightarrow> consumer \<Rightarrow> bool" where
  "grows_by P c c' \<longleftrightarrow> (\<exists>evs. c_trace c' = c_trace c @ evs \<and> list_all P evs)"

section \<open>Lookup in updated tables\<close>

lemma last_publish_of_snoc: "last_publish_of (evs @ [BasicPublish p]) = Some p"
  by (induction evs rule: last_publish_of.induct) auto

lemma published_headers_update: "published_headers (AList.update ''headers'' (PDict h) d) = h"
  by (simp add: published_headers_def update_conv')

lemma map_of_update_other: "k \<noteq> k' \<Longrightarrow> map_of (AList.update k v d) k' = map_of d k'"
  by (simp add: update_conv')

lemma count_processing_error_lookup:
  "map_of (count_processing_error env h) PROCESSING_EXCEPTIONS =
     Some (case map_of h PROCESSING_EXCEPTIONS of
             None \<Rightarrow> PInt 1
           | Some (PInt i) \<Rightarrow> PInt (i + 1)
           | Some (PBool b) \<Rightarrow> PInt ((if b then 1 else 0) + 1)
           | Some (PFloat x) \<Rightarrow> PFloat (float_add env x 1)
           | Some _ \<Rightarrow> PInt 1)"
  by (simp add: count_processing_error_def update_conv'
      split: option.splits pyval.splits sum.splits)

lemma processing_error_headers_lookup:
  "map_of (processing_error_headers env error m) PROCESSING_EXCEPTIONS =
     Some (case map_of (copied_headers m) PROCESSING_EXCEPTIONS of
             None \<Rightarrow> PInt 1
           | Some (PInt i) \<Rightarrow> PInt (i + 1)
           | Some (PBool b) \<Rightarrow> PInt ((if b then 1 else 0) + 1)
           | Some (PFloat x) \<Rightarrow> PFloat (float_add env x 1)
           | Some _ \<Rightarrow> PInt 1)"
  unfolding processing_error_headers_def count_processing_error_lookup
  by (simp add: update_conv' PROCESSING_EXCEPTIONS_def)

lemma dropped_headers_lookup:
  "map_of (dropped_headers env cname reason m) ''X-Dropped-By'' = Some (PStr cname)"
  "map_of (dropped_headers env cname reason m) ''X-Dropped-Reason'' = Some (PStr reason)"
  "map_of (dropped_headers env cname reason m) ''X-Dropped-Timestamp'' = Some (PStr (utcnow_iso env))"
  "map_of (dropped_headers env cname reason m) ''X-Original-Exchange'' = Some (PStr (m_exchange m))"
  by (simp_all add: dropped_headers_def update_conv')

section \<open>Republishing: header names and the retry counter\<close>

text \<open>
  C2, as the code has it. A drop republish is one \<^verbatim>\<open>basic_publish\<close> to the drop exchange
  with the routing key and the body of the message, whose header table holds the name of
  the consumer under \<^verbatim>\<open>X-Dropped-By\<close>, the reason under \<^verbatim>\<open>X-Dropped-Reason\<close>, the UTC
  time in ISO 8601 under \<^verbatim>\<open>X-Dropped-Timestamp\<close> and the exchange of the message under
  \<^verbatim>\<open>X-Original-Exchange\<close>. A processing-error republish is one \<^verbatim>\<open>basic_publish\<close> to the
  error exchange with the routing key and the body of the message, whose header table
  holds the retry counter under \<^verbatim>\<open>X-Processing-Exceptions\<close>. Every header name carries
  the prefix \<^verbatim>\<open>X-\<close>.
\<close>

theorem republish_header_names:
  assumes "c_message c = Some m"
  shows "fst (republish_dropped_message env reason c) = None
       \<and> (\<exists>p. c_trace (snd (republish_dropped_message env reason c)) = c_trace c @ [BasicPublish p]
            \<and> pub_exchange p = c_drop_exchange c
            \<and> pub_routing_key p = Some (m_routing_key m)
            \<and> pub_body p = PBytes (m_body m)
            \<and> map_of (published_headers (pub_properties p)) ''X-Dropped-By'' = Some (PStr (c_name c))
            \<and> map_of (published_headers (pub_properties p)) ''X-Dropped-Reason'' = Some (PStr reason)
            \<and> map_of (published_headers (pub_properties p)) ''X-Dropped-Timestamp''
                = Some (PStr (utcnow_iso env))
            \<and> map_of (published_headers (pub_properties p)) ''X-Original-Exchange''
                = Some (PStr (m_exchange m)))
       \<and> fst (republish_processing_error env error c) = None
       \<and> (\<exists>q. c_trace (snd (republish_processing_error env error c)) = c_trace c @ [BasicPublish q]
            \<and> pub_exchange q = Some (c_error_exchange c)
            \<and> pub_routing_key q = Some (m_routing_key m)
            \<and> pub_body q = PBytes (m_body m)
            \<and> map_of (published_headers (pub_properties q)) ''X-Processing-Exceptions'' \<noteq> None)"
proof -
  have counter: "map_of (processing_error_headers env error m) ''X-Processing-Exceptions'' \<noteq> None"
    using processing_error_headers_lookup [of env error m] by (simp add: PROCESSING_EXCEPTIONS_def)
  show ?thesis
    using assms counter
    by (simp add: republish_dropped_message_def republish_processing_error_def emit_def Let_def
        published_headers_update dropped_headers_lookup)
qed

theorem republish_header_names_witness:
  "c_message (processing demo_message demo_consumer) = Some demo_message
   \<and> last_published_header ''X-Dropped-By''
        (snd (republish_dropped_message demo_env ''invalid type''
           (processing demo_message demo_consumer))) = Some (PStr ''Worker'')
   \<and> last_published_header ''X-Processing-Exceptions''
        (snd (republish_processing_error demo_env ''boom'' (processing demo_message demo_consumer)))
      = Some (PInt 1)"
proof -
  have m: "c_message (processing demo_message demo_consumer) = Some demo_message"
    by (simp add: processing_def)
  have "last_published_header ''X-Dropped-By''
          (snd (republish_dropped_message demo_env ''invalid type''
             (processing demo_message demo_consumer))) = Some (PStr ''Worker'')"
    using republish_header_names [OF m, of demo_env "''invalid type''" "''boom''"]
    by (auto simp: last_published_header_def last_publish_def last_publish_of_snoc
        published_headers_def demo_consumer_def processing_def
        split: option.splits pyval.splits)
  moreover have "last_published_header ''X-Processing-Exceptions''
          (snd (republish_processing_error demo_env ''boom'' (processing demo_message demo_consumer)))
        = Some (PInt 1)"
    by code_simp
  ultimately show ?thesis using m by simp
qed

text \<open>
  C2 as the spec words it fails: nothing is published under \<^verbatim>\<open>Processing-Exceptions\<close>
  or \<^verbatim>\<open>Dropped-By\<close>; the names in use are \<^verbatim>\<open>X-Processing-Exceptions\<close> and
  \<^verbatim>\<open>X-Dropped-By\<close>.
\<close>

theorem republish_header_names_counterexample:
  "last_published_header ''Processing-Exceptions''
     (snd (republish_processing_error demo_env ''boom'' (processing demo_message demo_consumer))) = None
   \<and> last_published_header ''X-Processing-Exceptions''
       (snd (republish_processing_error demo_env ''boom'' (processing demo_message demo_consumer)))
      = Some (PInt 1)
   \<and> last_published_header ''Dropped-By''
       (snd (republish_dropped_message demo_env ''invalid type''
          (processing demo_message demo_consumer))) = None
   \<and> last_published_header ''X-Dropped-By''
       (snd (republish_dropped_message demo_env ''invalid type''
          (processing demo_message demo_consumer))) = Some (PStr ''Worker'')"
  by code_simp

text \<open>
  C6, as the code has it. The processing-error republish publishes, under
  \<^verbatim>\<open>X-Processing-Exceptions\<close>: 1 when the message has no such header; the value plus one
  when the header holds an integer or a boolean (counting as 0 or 1); the float that
  Python's float addition gives for the value and 1, when the header holds a float; 1
  when it holds a value of any other type (a string, bytes, None, a list, a dictionary),
  for which the addition raises \<^verbatim>\<open>TypeError\<close>. A float is not reset: the addition does
  not raise.
\<close>

theorem retry_counter_update:
  assumes "c_message c = Some m"
  shows "\<exists>q. c_trace (snd (republish_processing_error env error c)) = c_trace c @ [BasicPublish q]
           \<and> pub_exchange q = Some (c_error_exchange c)
           \<and> map_of (published_headers (pub_properties q)) PROCESSING_EXCEPTIONS =
               Some (case map_of (copied_headers m) PROCESSING_EXCEPTIONS of
                       None \<Rightarrow> PInt 1
                     | Some (PInt i) \<Rightarrow> PInt (i + 1)
                     | Some (PBool b) \<Rightarrow> PInt ((if b then 1 else 0) + 1)
                     | Some (PFloat x) \<Rightarrow> PFloat (float_add env x 1)
                     | Some _ \<Rightarrow> PInt 1)"
  using assms
  by (simp add: republish_processing_error_def emit_def Let_def published_headers_update
      processing_error_headers_lookup)

theorem retry_counter_update_witness:
  "c_message (processing (with_headers [(''X-Processing-Exceptions'', PInt 3)] demo_message)
      demo_consumer)
     = Some (with_headers [(''X-Processing-Exceptions'', PInt 3)] demo_message)
   \<and> (\<exists>q. c_trace (snd (republish_processing_error demo_env ''boom''
              (processing (with_headers [(''X-Processing-Exceptions'', PInt 3)] demo_message)
                 demo_consumer))) = [BasicPublish q]
        \<and> pub_exchange q = Some ''errors''
        \<and> map_of (published_headers (pub_properties q)) ''X-Processing-Exceptions''
            = Some (PInt 4))"
proof -
  have m: "c_message (processing (with_headers [(''X-Processing-Exceptions'', PInt 3)] demo_message)
             demo_consumer)
           = Some (with_headers [(''X-Processing-Exceptions'', PInt 3)] demo_message)"
    by (simp add: processing_def)
  show ?thesis
    using m retry_counter_update [OF m, of demo_env "''boom''"]
    by (simp add: processing_def demo_consumer_def with_headers_def copied_headers_def
        demo_message_def PROCESSING_EXCEPTIONS_def)
qed

text \<open>
  C6 as the spec words it fails on a header that is not an integer and is a number: the
  float 2.5 becomes 3.5, not 1.
\<close>

theorem retry_counter_counterexample:
  "last_published_header ''X-Processing-Exceptions''
     (snd (republish_processing_error demo_env ''boom''
        (processing (with_headers [(''X-Processing-Exceptions'', PFloat (Finite (5 / 2)))] demo_message)
           demo_consumer)))
   = Some (PFloat (Finite (7 / 2)))"
  by code_simp

section \<open>User code keeps the finish count\<close>

lemma user_frame_refl: "user_frame c c"
  by (simp add: user_frame_def)

lemma user_frame_trans: "user_frame a b \<Longrightarrow> user_frame b c \<Longrightarrow> user_frame a c"
  by (auto simp: user_frame_def)

lemma user_frame_emit:
  "user_event ev \<Longrightarrow> ev \<noteq> Called ''on_finish'' \<Longrightarrow> user_frame c (emit ev c)"
  by (simp add: user_frame_def emit_def finish_due_def finish_calls_def)

lemma user_frame_body_field: "user_frame c c' \<Longrightarrow> user_frame c (c'\<lparr>c_message_body := v\<rparr>)"
  by (simp add: user_frame_def finish_due_def finish_calls_def)

lemma user_frame_finish: "user_frame c (snd (finish hook c))"
  by (simp add: user_frame_def finish_def on_finish_def emit_def finish_due_def finish_calls_def)

lemma user_frame_invoke: "user_frame c (snd (maybe_invoke_serialization env v mt key c))"
  by (auto simp: maybe_invoke_serialization_def Let_def user_frame_refl user_frame_emit
      split: option.splits sum.splits)

lemma user_frame_decompress: "user_frame c (snd (maybe_decompress_body env c))"
  by (auto simp: maybe_decompress_body_def user_frame_refl user_frame_emit split: option.splits)

lemma user_frame_deserialize: "user_frame c (snd (maybe_deserialize_body env c))"
  by (auto simp: maybe_deserialize_body_def user_frame_refl user_frame_invoke
      split: option.splits sum.splits)

lemma user_frame_smart_body: "user_frame c (snd (smart_body env c))"
proof (cases "truthy (c_message_body c)")
  case True
  then show ?thesis by (simp add: smart_body_def user_frame_refl)
next
  case False
  obtain r1 c1 where d: "maybe_decompress_body env c = (r1, c1)" by (cases "maybe_decompress_body env c")
  have f1: "user_frame c c1" using user_frame_decompress [of c env] d by simp
  show ?thesis
  proof (cases r1)
    case (Inl e)
    then show ?thesis using False d f1 by (simp add: smart_body_def)
  next
    case (Inr v)
    obtain r2 c2 where s: "maybe_deserialize_body env (c1\<lparr>c_message_body := v\<rparr>) = (r2, c2)"
      by (cases "maybe_deserialize_body env (c1\<lparr>c_message_body := v\<rparr>)")
    have f2: "user_frame (c1\<lparr>c_message_body := v\<rparr>) c2"
      using user_frame_deserialize [of "c1\<lparr>c_message_body := v\<rparr>" env] s by simp
    have f3: "user_frame c c2"
      using user_frame_trans [OF user_frame_body_field [OF f1] f2] .
    show ?thesis using False d Inr s f3
      by (cases r2) (simp_all add: smart_body_def user_frame_body_field)
  qed
qed

lemma user_frame_body: "user_frame c (snd (body env c))"
  by (auto simp: body_def user_frame_smart_body user_frame_refl split: option.splits)

lemma user_frame_run_step: "user_frame c (snd (run_step env hook s c))"
proof (cases s)
  case ReadBody
  then show ?thesis using user_frame_body [of c env] by (auto split: prod.splits sum.splits)
qed (simp_all add: user_frame_finish user_frame_emit user_frame_refl)

lemma user_frame_run_steps: "user_frame c (snd (run_steps env hook ss c))"
proof (induction ss arbitrary: c)
  case Nil
  then show ?case by (simp add: user_frame_refl)
next
  case (Cons s ss)
  obtain r c1 where st: "run_step env hook s c = (r, c1)" by (cases "run_step env hook s c")
  have f1: "user_frame c c1" using user_frame_run_step [of c env hook s] st by simp
  show ?case
  proof (cases r)
    case None
    then show ?thesis using st user_frame_trans [OF f1 Cons.IH [of c1]] by simp
  next
    case (Some e)
    then show ?thesis using st f1 by simp
  qed
qed

lemma run_steps_append:
  "run_steps env hook (xs @ ys) c =
     (case run_steps env hook xs c of (Some e, c1) \<Rightarrow> (Some e, c1) | (None, c1) \<Rightarrow> run_steps env hook ys c1)"
  by (induction xs arbitrary: c) (auto split: prod.splits option.splits)


lemma grows_refl: "grows_by P c c"
  by (simp add: grows_by_def)

lemma grows_trans: "grows_by P a b \<Longrightarrow> grows_by P b c \<Longrightarrow> grows_by P a c"
  by (auto simp: grows_by_def)

lemma grows_mono: "grows_by P c c' \<Longrightarrow> (\<And>ev. P ev \<Longrightarrow> Q ev) \<Longrightarrow> grows_by Q c c'"
  by (auto simp: grows_by_def list_all_iff)

lemma grows_emit: "P ev \<Longrightarrow> grows_by P c (emit ev c)"
  by (simp add: grows_by_def emit_def)

lemma grows_count:
  "grows_by (\<lambda>ev. ev \<noteq> x) c c' \<Longrightarrow> count_list (c_trace c') x = count_list (c_trace c) x"
  by (auto simp: grows_by_def list_all_iff count_list_0_iff)

lemma user_frame_grows: "user_frame c c' \<Longrightarrow> grows_by user_event c c'"
  by (auto simp: user_frame_def grows_by_def)

lemma call_user_steps:
  "call_user env hook nm f c =
     (case run_steps env hook (all_steps f) (emit (Called nm) c) of
        (Some e, c1) \<Rightarrow> (Some e, c1)
      | (None, c1) \<Rightarrow> (None, emit (Returned nm) c1))"
  by (simp add: call_user_def all_steps_def run_steps_append split: prod.splits option.splits)

lemma emit_fields [simp]:
  "c_finished (emit ev c) = c_finished c"
  "c_message (emit ev c) = c_message c"
  "c_trace (emit ev c) = c_trace c @ [ev]"
  by (simp_all add: emit_def)

lemma finish_due_emit: "ev \<noteq> Called ''on_finish'' \<Longrightarrow> finish_due (emit ev c) = finish_due c"
  by (simp add: finish_due_def finish_calls_def)

lemma call_user_frame:
  assumes "nm \<noteq> ''on_finish''"
  shows "finish_due (snd (call_user env hook nm f c)) = finish_due c
       \<and> c_message (snd (call_user env hook nm f c)) = c_message c
       \<and> (c_finished c \<longrightarrow> c_finished (snd (call_user env hook nm f c)))"
proof -
  obtain r c1 where rs: "run_steps env hook (all_steps f) (emit (Called nm) c) = (r, c1)"
    by (cases "run_steps env hook (all_steps f) (emit (Called nm) c)")
  have uf: "user_frame (emit (Called nm) c) c1"
    using user_frame_run_steps [of "emit (Called nm) c" env hook "all_steps f"] rs by simp
  have "finish_due c1 = finish_due c \<and> c_message c1 = c_message c \<and> (c_finished c \<longrightarrow> c_finished c1)"
    using uf assms by (simp add: user_frame_def finish_due_emit)
  then show ?thesis
    using rs by (cases r) (simp_all add: call_user_steps finish_due_emit)
qed

lemma prepare_and_process_frame:
  "finish_due (snd (prepare_and_process env u c)) = finish_due c
   \<and> c_message (snd (prepare_and_process env u c)) = c_message c"
proof -
  obtain r c1 where p: "call_user env (u_on_finish u) ''prepare'' (u_prepare u) c = (r, c1)"
    by (cases "call_user env (u_on_finish u) ''prepare'' (u_prepare u) c")
  have f1: "finish_due c1 = finish_due c \<and> c_message c1 = c_message c"
    using call_user_frame [of "''prepare''" env "u_on_finish u" "u_prepare u" c] p by simp
  have f2: "finish_due (snd (call_user env (u_on_finish u) ''process'' (u_process u) c1))
              = finish_due c1
          \<and> c_message (snd (call_user env (u_on_finish u) ''process'' (u_process u) c1))
              = c_message c1"
    using call_user_frame [of "''process''" env "u_on_finish u" "u_process u" c1] by simp
  show ?thesis
    using p f1 f2 by (cases r) (simp_all add: prepare_and_process_def)
qed

lemma set_tag_fields [simp]:
  "c_finished (measurement_set_tag k v c) = c_finished c"
  "c_message (measurement_set_tag k v c) = c_message c"
  "c_trace (measurement_set_tag k v c) = c_trace c"
  by (simp_all add: measurement_set_tag_def)

lemma tag_exception_fields [simp]:
  "c_finished (tag_exception e metric c) = c_finished c"
  "c_message (tag_exception e metric c) = c_message c"
  "c_trace (tag_exception e metric c) = c_trace c"
  by (simp_all add: tag_exception_def Let_def)

lemma republish_processing_error_result:
  "c_message c = Some m \<Longrightarrow>
     fst (republish_processing_error env error c) = None
     \<and> c_finished (snd (republish_processing_error env error c)) = c_finished c
     \<and> grows_by is_publish c (snd (republish_processing_error env error c))"
  by (simp add: republish_processing_error_def Let_def grows_by_def)

lemma republish_dropped_message_result:
  "c_message c = Some m \<Longrightarrow>
     fst (republish_dropped_message env reason c) = None
     \<and> c_finished (snd (republish_dropped_message env reason c)) = c_finished c
     \<and> grows_by is_publish c (snd (republish_dropped_message env reason c))"
  by (simp add: republish_dropped_message_def Let_def grows_by_def)

lemma handle_exception_result:
  assumes "c_message c = Some m"
  shows "fst (handle_exception env e c) =
           (case e of
              RabbitMQException \<Rightarrow> Inr RABBITMQ_EXCEPTION
            | ConfigurationException metric \<Rightarrow> Inr CONFIGURATION_EXCEPTION
            | ConsumerException metric \<Rightarrow> Inr CONSUMER_EXCEPTION
            | MessageException metric \<Rightarrow> Inr MESSAGE_EXCEPTION
            | ProcessingException metric \<Rightarrow> Inr PROCESSING_EXCEPTION
            | BaseException n \<Rightarrow> Inl (BaseException n)
            | _ \<Rightarrow> Inr UNHANDLED_EXCEPTION)
       \<and> c_finished (snd (handle_exception env e c)) = c_finished c
       \<and> grows_by is_publish c (snd (handle_exception env e c))"
proof (cases e)
  case (ProcessingException metric)
  define err where "err = (if truthy_str metric then fmt_opt metric else ''ProcessingException'')"
  define c0 where "c0 = tag_exception (ProcessingException metric) metric c"
  have m: "c_message c0 = Some m" and t: "c_trace c0 = c_trace c" and f: "c_finished c0 = c_finished c"
    using assms by (simp_all add: c0_def)
  obtain r c1 where rp: "republish_processing_error env err c0 = (r, c1)"
    by (cases "republish_processing_error env err c0")
  have res: "r = None \<and> c_finished c1 = c_finished c0 \<and> grows_by is_publish c0 c1"
    using republish_processing_error_result [OF m, of env err] rp by simp
  have "handle_exception env e c = (Inr PROCESSING_EXCEPTION, c1)"
    using ProcessingException rp res by (simp add: err_def c0_def)
  then show ?thesis
    using ProcessingException res t f by (simp add: grows_by_def)
qed (simp_all add: grows_by_def)

lemma finally_clause_result:
  "c_finished (snd (finally_clause hook c))
   \<and> finish_calls (snd (finally_clause hook c)) = finish_due c
   \<and> grows_by (\<lambda>ev. ev = Called ''on_finish'') c (snd (finally_clause hook c))
   \<and> fst (finally_clause hook c) = (if c_finished c then None else hook)"
  by (simp add: finally_clause_def finish_def on_finish_def finish_due_def finish_calls_def
      grows_by_def)

lemma clear_all_futures_fields [simp]:
  "c_trace (clear_all_futures c) = c_trace c"
  "c_finished (clear_all_futures c) = c_finished c"
  by (simp_all add: clear_all_futures_def)

lemma publish_not_finish: "is_publish ev \<Longrightarrow> ev \<noteq> Called ''on_finish''"
  by (cases ev) simp_all

lemma finish_due_grows_publish:
  assumes "grows_by is_publish c c'" and "c_finished c' = c_finished c"
  shows "finish_due c' = finish_due c"
proof -
  have "grows_by (\<lambda>ev. ev \<noteq> Called ''on_finish'') c c'"
    by (rule grows_mono [OF assms(1)]) (rule publish_not_finish)
  then have "finish_calls c' = finish_calls c"
    by (simp add: finish_calls_def grows_count)
  then show ?thesis using assms(2) by (simp add: finish_due_def)
qed

text \<open>
  The state in which the \<^verbatim>\<open>try\<close> statement is left, and what is pending there: the
  state after the \<^verbatim>\<open>except\<close> clause when \<^verbatim>\<open>prepare\<close> or \<^verbatim>\<open>process\<close> raised, the state
  after them otherwise.
\<close>

lemma try_block_unfold:
  assumes "prepare_and_process env u c = (r, c1)"
  shows "try_block env u c =
           (case r of
              Some e \<Rightarrow> leave_try (u_on_finish u) (handle_exception env e c1)
            | None \<Rightarrow>
                (case finally_clause (u_on_finish u) c1 of
                   (Some f, c2) \<Rightarrow> (Inl f, c2)
                 | (None, c2) \<Rightarrow> (Inr MESSAGE_ACK, clear_all_futures c2)))"
  using assms by (cases r) (simp_all add: try_block_def)

lemma finally_clause_fst:
  "fst (finally_clause hook c) = (if c_finished c then None else hook)"
  using finally_clause_result [of hook c] by simp

lemma leave_try_result:
  "fst (leave_try hook rc) = (case (if c_finished (snd rc) then None else hook) of
                                Some f \<Rightarrow> Inl f | None \<Rightarrow> fst rc)"
  "snd (leave_try hook rc) = snd (finally_clause hook (snd rc))"
proof -
  have "fst (leave_try hook rc)
          = (case fst (finally_clause hook (snd rc)) of Some f \<Rightarrow> Inl f | None \<Rightarrow> fst rc)"
    by (simp add: leave_try_def split: prod.splits option.splits)
  then show "fst (leave_try hook rc) = (case (if c_finished (snd rc) then None else hook) of
                                Some f \<Rightarrow> Inl f | None \<Rightarrow> fst rc)"
    by (simp only: finally_clause_fst)
  show "snd (leave_try hook rc) = snd (finally_clause hook (snd rc))"
    by (simp add: leave_try_def split: prod.splits option.splits)
qed

lemma try_block_result:
  assumes "c_message c = Some m" and "prepare_and_process env u c = (r, c1)"
  shows "fst (try_block env u c) =
           (case (if c_finished c1 then None else u_on_finish u) of
              Some f \<Rightarrow> Inl f
            | None \<Rightarrow>
                (case r of
                   None \<Rightarrow> Inr MESSAGE_ACK
                 | Some e \<Rightarrow> fst (handle_exception env e c1)))"
    and "finish_calls (snd (try_block env u c)) = finish_due c"
proof -
  have f1: "finish_due c1 = finish_due c" and m1: "c_message c1 = Some m"
    using prepare_and_process_frame [of env u c] assms by simp_all
  show "fst (try_block env u c) =
           (case (if c_finished c1 then None else u_on_finish u) of
              Some f \<Rightarrow> Inl f
            | None \<Rightarrow>
                (case r of
                   None \<Rightarrow> Inr MESSAGE_ACK
                 | Some e \<Rightarrow> fst (handle_exception env e c1)))"
  proof (cases r)
    case None
    have "fst (try_block env u c)
            = (case fst (finally_clause (u_on_finish u) c1) of
                 Some f \<Rightarrow> Inl f | None \<Rightarrow> Inr MESSAGE_ACK)"
      unfolding try_block_unfold [OF assms(2)] None
      by (simp split: prod.splits option.splits)
    then show ?thesis
      unfolding None by (simp only: finally_clause_fst option.case)
  next
    case (Some e)
    have "c_finished (snd (handle_exception env e c1)) = c_finished c1"
      using handle_exception_result [OF m1, of env e] by simp
    then show ?thesis
      unfolding Some try_block_unfold [OF assms(2)]
      by (simp add: leave_try_result split: option.splits)
  qed
  show "finish_calls (snd (try_block env u c)) = finish_due c"
  proof (cases r)
    case None
    obtain rf cf where f: "finally_clause (u_on_finish u) c1 = (rf, cf)"
      by (cases "finally_clause (u_on_finish u) c1")
    have "finish_calls cf = finish_due c1"
      using finally_clause_result [of "u_on_finish u" c1] f by simp
    then show ?thesis
      using None f f1
      by (cases rf) (simp_all add: try_block_unfold [OF assms(2)] finish_calls_def)
  next
    case (Some e)
    let ?c2 = "snd (handle_exception env e c1)"
    have hr: "c_finished ?c2 = c_finished c1" "grows_by is_publish c1 ?c2"
      using handle_exception_result [OF m1, of env e] by simp_all
    have due2: "finish_due ?c2 = finish_due c1"
      using finish_due_grows_publish [OF hr(2) hr(1)] .
    have "snd (try_block env u c) = snd (finally_clause (u_on_finish u) ?c2)"
      using Some by (simp add: try_block_unfold [OF assms(2)] leave_try_result)
    then show ?thesis
      using finally_clause_result [of "u_on_finish u" ?c2] due2 f1 by simp
  qed
qed

section \<open>What execute does before its try statement\<close>

lemma not_call_publish: "is_publish ev \<Longrightarrow> \<not> is_call ev"
  by (cases ev) simp_all

lemma begin_execute_fields:
  "\<not> c_finished (begin_execute env m ms c0)"
  "c_message (begin_execute env m ms c0) = Some m"
  "c_trace (begin_execute env m ms c0) = c_trace c0"
  "c_connections (begin_execute env m ms c0) = c_connections c0"
  "c_message_type (begin_execute env m ms c0) = c_message_type c0"
  "c_error_max_retry (begin_execute env m ms c0) = c_error_max_retry c0"
  "c_drop_exchange (begin_execute env m ms c0) = c_drop_exchange c0"
  "c_drop_invalid (begin_execute env m ms c0) = c_drop_invalid c0"
  by (simp_all add: begin_execute_def Let_def clear_def)

lemma connection_correlation_id_fields:
  assumes "connection_correlation_id m c = Inr c'"
  shows "c_finished c' = c_finished c" "c_message c' = c_message c" "c_trace c' = c_trace c"
    "c_message_type c' = c_message_type c" "c_error_max_retry c' = c_error_max_retry c"
    "c_drop_exchange c' = c_drop_exchange c" "c_drop_invalid c' = c_drop_invalid c"
  using assms by (auto simp: connection_correlation_id_def split: option.splits)

lemma drop_message_result:
  assumes "c_message c = Some m"
  shows "fst (drop_message env reason c) = Inr MESSAGE_DROP
       \<and> grows_by is_publish c (snd (drop_message env reason c))"
proof (cases "truthy_str (c_drop_exchange c)")
  case True
  then show ?thesis
    using republish_dropped_message_result [OF assms, of env reason]
    by (auto simp: drop_message_def split: prod.splits option.splits)
next
  case False
  then show ?thesis by (simp add: drop_message_def grows_refl)
qed

lemma type_filter_None:
  "fst (type_filter env c) = None \<Longrightarrow> snd (type_filter env c) = c"
  by (auto simp: type_filter_def Let_def split: if_splits)

lemma retry_filter_None:
  "fst (retry_filter env c) = None \<Longrightarrow> snd (retry_filter env c) = c"
  by (auto simp: retry_filter_def Let_def split: if_splits option.splits sum.splits bool.splits)

lemma type_filter_grows:
  assumes "c_message c = Some m"
  shows "grows_by (\<lambda>ev. \<not> is_call ev) c (snd (type_filter env c))"
proof -
  let ?c1 = "emit (Warning ''Received unsupported message type'') c"
  have m1: "c_message ?c1 = Some m" using assms by simp
  have g1: "grows_by (\<lambda>ev. \<not> is_call ev) c ?c1" by (rule grows_emit) simp
  have "grows_by is_publish ?c1 (snd (drop_message env ''invalid type'' ?c1))"
    using drop_message_result [OF m1, of env "''invalid type''"] by simp
  then have "grows_by (\<lambda>ev. \<not> is_call ev) ?c1 (snd (drop_message env ''invalid type'' ?c1))"
    by (rule grows_mono) (rule not_call_publish)
  then have g2: "grows_by (\<lambda>ev. \<not> is_call ev) c (snd (drop_message env ''invalid type'' ?c1))"
    by (rule grows_trans [OF g1])
  show ?thesis
    using g1 g2 by (simp add: type_filter_def Let_def grows_refl)
qed

lemma retry_filter_grows:
  assumes "c_message c = Some m"
  shows "grows_by (\<lambda>ev. \<not> is_call ev) c (snd (retry_filter env c))"
proof -
  let ?c1 = "emit (Warning ''Dropping message due to ERROR_MAX_RETRY'') c"
  have m1: "c_message ?c1 = Some m" using assms by simp
  have g1: "grows_by (\<lambda>ev. \<not> is_call ev) c ?c1" by (rule grows_emit) simp
  have g2: "grows_by (\<lambda>ev. \<not> is_call ev) c (snd (drop_message env reason ?c1))" for reason
  proof -
    have "grows_by is_publish ?c1 (snd (drop_message env reason ?c1))"
      using drop_message_result [OF m1, of env reason] by simp
    then have "grows_by (\<lambda>ev. \<not> is_call ev) ?c1 (snd (drop_message env reason ?c1))"
      by (rule grows_mono) (rule not_call_publish)
    then show ?thesis by (rule grows_trans [OF g1])
  qed
  show ?thesis
    using g2 by (simp add: retry_filter_def Let_def grows_refl
        split: option.splits sum.splits bool.splits)
qed

lemma before_try_None:
  assumes "fst (before_try env m ms c0) = None"
  shows "\<not> c_finished (snd (before_try env m ms c0))
       \<and> c_message (snd (before_try env m ms c0)) = Some m
       \<and> c_trace (snd (before_try env m ms c0)) = c_trace c0"
proof (cases "connection_correlation_id m (begin_execute env m ms c0)")
  case (Inl e)
  then show ?thesis using assms by (simp add: before_try_def)
next
  case (Inr c)
  note f = connection_correlation_id_fields [OF Inr] begin_execute_fields [of env m ms c0]
  obtain r1 c1 where tf: "type_filter env c = (r1, c1)" by (cases "type_filter env c")
  show ?thesis
  proof (cases r1)
    case (Some r)
    then show ?thesis using assms Inr tf by (simp add: before_try_def)
  next
    case None
    then have c1: "c1 = c" using type_filter_None [of env c] tf by simp
    have rf: "fst (retry_filter env c) = None"
      using assms Inr tf None c1 by (simp add: before_try_def)
    have "snd (before_try env m ms c0) = c"
      using Inr tf None c1 retry_filter_None [OF rf] by (simp add: before_try_def)
    then show ?thesis using f by simp
  qed
qed

lemma before_try_grows: "grows_by (\<lambda>ev. \<not> is_call ev) c0 (snd (before_try env m ms c0))"
proof (cases "connection_correlation_id m (begin_execute env m ms c0)")
  case (Inl e)
  then show ?thesis
    by (simp add: before_try_def grows_by_def begin_execute_fields)
next
  case (Inr c)
  note f = connection_correlation_id_fields [OF Inr] begin_execute_fields [of env m ms c0]
  have m: "c_message c = Some m" and t: "c_trace c = c_trace c0" using f by simp_all
  obtain r1 c1 where tf: "type_filter env c = (r1, c1)" by (cases "type_filter env c")
  have g1: "grows_by (\<lambda>ev. \<not> is_call ev) c c1"
    using type_filter_grows [OF m, of env] tf by simp
  have g: "grows_by (\<lambda>ev. \<not> is_call ev) c (snd (before_try env m ms c0))"
  proof (cases r1)
    case (Some r)
    then show ?thesis using Inr tf g1 by (simp add: before_try_def)
  next
    case None
    then have c1: "c1 = c" using type_filter_None [of env c] tf by simp
    show ?thesis
      using Inr tf None c1 retry_filter_grows [OF m, of env] by (simp add: before_try_def)
  qed
  then show ?thesis using t by (simp add: grows_by_def)
qed







lemma not_call_count: "\<not> is_call ev \<Longrightarrow> ev \<noteq> Called n"
  by (cases ev) simp_all

lemma before_try_calls:
  "count_list (c_trace (snd (before_try env m ms c0))) (Called n) = count_list (c_trace c0) (Called n)"
proof -
  have "grows_by (\<lambda>ev. ev \<noteq> Called n) c0 (snd (before_try env m ms c0))"
    by (rule grows_mono [OF before_try_grows]) (rule not_call_count)
  then show ?thesis by (rule grows_count)
qed

section \<open>One outcome, one call of on_finish\<close>





section \<open>Exceptions of prepare and process at the boundary of execute\<close>

text \<open>
  C3, as the code has it. When the \<^verbatim>\<open>try\<close> statement is entered and \<^verbatim>\<open>prepare\<close> or
  \<^verbatim>\<open>process\<close> raises the exception \<open>e\<close>, the result of \<^verbatim>\<open>execute\<close> is this. If the
  message is not finished at the \<^verbatim>\<open>finally\<close> clause and \<^verbatim>\<open>on_finish\<close>, which the clause
  then calls, raises \<open>f\<close>, the exception \<open>f\<close> leaves \<^verbatim>\<open>execute\<close>. Otherwise \<^verbatim>\<open>execute\<close>
  returns the outcome that the \<^verbatim>\<open>except\<close> clause of the class of \<open>e\<close> gives, when \<open>e\<close>
  is an instance of \<^verbatim>\<open>Exception\<close>; an exception that is not one (\<^verbatim>\<open>SystemExit\<close>,
  \<^verbatim>\<open>KeyboardInterrupt\<close>, \<^verbatim>\<open>GeneratorExit\<close>) is caught by no clause, the widest being
  \<^verbatim>\<open>except Exception\<close>, and leaves \<^verbatim>\<open>execute\<close>.
\<close>

theorem execute_catches:
  assumes "fst (before_try env m ms c0) = None"
      and "fst (prepare_and_process env u (snd (before_try env m ms c0))) = Some e"
  shows "fst (execute env u m ms c0) =
           (case (if c_finished (snd (prepare_and_process env u (snd (before_try env m ms c0))))
                  then None else u_on_finish u) of
              Some f \<Rightarrow> Inl f
            | None \<Rightarrow>
                (case e of
                   RabbitMQException \<Rightarrow> Inr RABBITMQ_EXCEPTION
                 | ConfigurationException metric \<Rightarrow> Inr CONFIGURATION_EXCEPTION
                 | ConsumerException metric \<Rightarrow> Inr CONSUMER_EXCEPTION
                 | MessageException metric \<Rightarrow> Inr MESSAGE_EXCEPTION
                 | ProcessingException metric \<Rightarrow> Inr PROCESSING_EXCEPTION
                 | BaseException n \<Rightarrow> Inl (BaseException n)
                 | _ \<Rightarrow> Inr UNHANDLED_EXCEPTION))"
proof -
  define c where "c = snd (before_try env m ms c0)"
  have bt: "before_try env m ms c0 = (None, c)" using assms(1) by (simp add: c_def prod_eq_iff)
  have ex: "execute env u m ms c0 = try_block env u c" using bt by (simp add: execute_def)
  obtain c1 where pp: "prepare_and_process env u c = (Some e, c1)"
    using assms(2) by (cases "prepare_and_process env u c") (simp add: c_def)
  have mc: "c_message c = Some m" using before_try_None [OF assms(1)] by (simp add: c_def)
  have m1: "c_message c1 = Some m"
    using prepare_and_process_frame [of env u c] pp mc by simp
  have he: "fst (handle_exception env e c1) =
           (case e of
              RabbitMQException \<Rightarrow> Inr RABBITMQ_EXCEPTION
            | ConfigurationException metric \<Rightarrow> Inr CONFIGURATION_EXCEPTION
            | ConsumerException metric \<Rightarrow> Inr CONSUMER_EXCEPTION
            | MessageException metric \<Rightarrow> Inr MESSAGE_EXCEPTION
            | ProcessingException metric \<Rightarrow> Inr PROCESSING_EXCEPTION
            | BaseException n \<Rightarrow> Inl (BaseException n)
            | _ \<Rightarrow> Inr UNHANDLED_EXCEPTION)"
    using handle_exception_result [OF m1, of env e] by simp
  have "fst (execute env u m ms c0) =
           (case (if c_finished c1 then None else u_on_finish u) of
              Some f \<Rightarrow> Inl f
            | None \<Rightarrow> fst (handle_exception env e c1))"
    using try_block_result(1) [OF mc pp] ex by (simp split: option.splits)
  then show ?thesis
    unfolding he using pp by (simp add: c_def [symmetric])
qed

theorem execute_catches_witness:
  "fst (before_try demo_env demo_message demo_measurement demo_consumer) = None
   \<and> fst (prepare_and_process demo_env (raising_user (ProcessingException None))
        (snd (before_try demo_env demo_message demo_measurement demo_consumer)))
       = Some (ProcessingException None)
   \<and> fst (execute demo_env (raising_user (ProcessingException None)) demo_message
        demo_measurement demo_consumer) = Inr PROCESSING_EXCEPTION"
proof -
  have enters: "fst (before_try demo_env demo_message demo_measurement demo_consumer) = None"
    by code_simp
  have raises: "fst (prepare_and_process demo_env (raising_user (ProcessingException None))
        (snd (before_try demo_env demo_message demo_measurement demo_consumer)))
       = Some (ProcessingException None)"
    by code_simp
  have hook: "u_on_finish (raising_user (ProcessingException None)) = None"
    by (simp add: raising_user_def)
  show ?thesis
    using enters raises hook execute_catches [OF enters raises] by simp
qed

text \<open>
  C3 as the spec words it fails in two executions that enter the \<^verbatim>\<open>try\<close> statement. A
  \<^verbatim>\<open>process\<close> that calls \<^verbatim>\<open>sys.exit()\<close> raises \<^verbatim>\<open>SystemExit\<close>, which no \<^verbatim>\<open>except\<close>
  clause catches: it leaves \<^verbatim>\<open>execute\<close>. A \<^verbatim>\<open>process\<close> that raises
  \<^verbatim>\<open>ProcessingException\<close> is answered by its \<^verbatim>\<open>except\<close> clause, but the \<^verbatim>\<open>finally\<close>
  clause then calls \<^verbatim>\<open>on_finish\<close>, whose \<^verbatim>\<open>IOError\<close> replaces the outcome and leaves
  \<^verbatim>\<open>execute\<close>.
\<close>

theorem execute_catches_counterexample:
  "fst (prepare_and_process demo_env exiting_user
        (snd (before_try demo_env demo_message demo_measurement demo_consumer)))
     = Some (BaseException ''SystemExit'')
   \<and> fst (execute demo_env exiting_user demo_message demo_measurement demo_consumer)
       = Inl (BaseException ''SystemExit'')
   \<and> fst (prepare_and_process demo_env failing_hook_user
        (snd (before_try demo_env demo_message demo_measurement demo_consumer)))
       = Some (ProcessingException None)
   \<and> fst (execute demo_env failing_hook_user demo_message demo_measurement demo_consumer)
       = Inl (OtherException ''IOError'')"
  by code_simp

section \<open>The retry filter\<close>

lemma before_try_retry:
  assumes conn: "map_of (c_connections c0) (m_connection m) = Some conn"
      and ty: "\<not> type_configured (c_message_type c0)
                \<or> message_supported (c_message_type c0) (p_type (m_properties m))"
  shows "\<exists>c. before_try env m ms c0 = retry_filter env c
           \<and> c_message c = Some m \<and> c_error_max_retry c = c_error_max_retry c0"
proof -
  let ?b = "begin_execute env m ms c0"
  note b = begin_execute_fields [of env m ms c0]
  obtain c where cc: "connection_correlation_id m ?b = Inr c"
    using conn b(4) by (simp add: connection_correlation_id_def)
  note f = connection_correlation_id_fields [OF cc]
  have "type_filter env c = (None, c)"
    using ty f b by (auto simp: type_filter_def message_type_def)
  then have "before_try env m ms c0 = retry_filter env c"
    using cc by (simp add: before_try_def)
  then show ?thesis using f b by auto
qed

text \<open>
  C5. The consumer has the connection of the message and accepts its type, the maximum
  of retries is \<open>n\<close>, which is not zero (zero reads as no maximum in
  \<^verbatim>\<open>if self._error_max_retry\<close>), and the message carries the integer \<open>k\<close> under
  \<^verbatim>\<open>X-Processing-Exceptions\<close>. When \<open>k\<close> is \<open>n\<close> or more, \<^verbatim>\<open>execute\<close> returns
  \<^verbatim>\<open>MESSAGE_DROP\<close> and \<^verbatim>\<open>process\<close> is not called. When \<open>k\<close> is less than \<open>n\<close>, as
  \<open>n - 1\<close> is, the filter lets the message pass: \<^verbatim>\<open>execute\<close> enters its \<^verbatim>\<open>try\<close>
  statement.
\<close>

theorem retry_filter_boundary:
  assumes conn: "map_of (c_connections c0) (m_connection m) = Some conn"
      and ty: "\<not> type_configured (c_message_type c0)
                \<or> message_supported (c_message_type c0) (p_type (m_properties m))"
      and thr: "c_error_max_retry c0 = Some n" "n \<noteq> 0"
      and hdr: "p_headers (m_properties m) = Some h"
               "map_of h PROCESSING_EXCEPTIONS = Some (PInt k)"
  shows "(n \<le> k \<longrightarrow>
            fst (execute env u m ms c0) = Inr MESSAGE_DROP
            \<and> process_calls (snd (execute env u m ms c0)) = process_calls c0)
       \<and> (k < n \<longrightarrow>
            fst (before_try env m ms c0) = None
            \<and> execute env u m ms c0 = try_block env u (snd (before_try env m ms c0)))"
proof -
  obtain c where bt: "before_try env m ms c0 = retry_filter env c"
    and cm: "c_message c = Some m" and cr: "c_error_max_retry c = Some n"
    using before_try_retry [OF conn ty, of env ms] thr(1) by auto
  have hd: "map_of (headers c) PROCESSING_EXCEPTIONS = Some (PInt k)"
    using cm hdr by (simp add: headers_def)
  let ?c1 = "emit (Warning ''Dropping message due to ERROR_MAX_RETRY'') c"
  have m1: "c_message ?c1 = Some m" using cm by simp
  have dm: "fst (drop_message env reason ?c1) = Inr MESSAGE_DROP" for reason
    using drop_message_result [OF m1] by simp
  have drop: "fst (before_try env m ms c0) = Some (Inr MESSAGE_DROP)" if "n \<le> k"
    using that bt cr thr(2) hd dm by (simp add: retry_filter_def Let_def)
  have pass: "fst (before_try env m ms c0) = None" if "k < n"
    using that bt cr thr(2) hd by (simp add: retry_filter_def)
  show ?thesis
  proof (intro conjI impI)
    assume "n \<le> k"
    then have ex: "execute env u m ms c0 = (Inr MESSAGE_DROP, snd (before_try env m ms c0))"
      using drop by (cases "before_try env m ms c0") (simp add: execute_def)
    show "fst (execute env u m ms c0) = Inr MESSAGE_DROP" using ex by simp
    show "process_calls (snd (execute env u m ms c0)) = process_calls c0"
      using ex before_try_calls [of env m ms c0 "''process''"] by (simp add: process_calls_def)
  next
    assume "k < n"
    then show "fst (before_try env m ms c0) = None" using pass by simp
    then show "execute env u m ms c0 = try_block env u (snd (before_try env m ms c0))"
      by (cases "before_try env m ms c0") (simp add: execute_def)
  qed
qed

theorem retry_filter_boundary_witness:
  "map_of (c_connections retry_consumer) (m_connection (retried 3)) = Some demo_connection
   \<and> message_supported (c_message_type retry_consumer) (p_type (m_properties (retried 3)))
   \<and> c_error_max_retry retry_consumer = Some 3
   \<and> p_headers (m_properties (retried 3)) = Some [(''X-Processing-Exceptions'', PInt 3)]
   \<and> p_headers (m_properties (retried 2)) = Some [(''X-Processing-Exceptions'', PInt 2)]
   \<and> fst (execute demo_env demo_user (retried 3) demo_measurement retry_consumer)
       = Inr MESSAGE_DROP
   \<and> process_calls (snd (execute demo_env demo_user (retried 3) demo_measurement retry_consumer))
       = 0
   \<and> fst (before_try demo_env (retried 2) demo_measurement retry_consumer) = None
   \<and> process_calls (snd (execute demo_env demo_user (retried 2) demo_measurement retry_consumer))
       = 1"
proof -
  have conn: "map_of (c_connections retry_consumer) (m_connection (retried k)) = Some demo_connection"
    for k by (simp add: retry_consumer_def demo_consumer_def retried_def with_headers_def
        demo_message_def)
  have ty: "\<not> type_configured (c_message_type retry_consumer)
             \<or> message_supported (c_message_type retry_consumer) (p_type (m_properties (retried k)))"
    for k by (simp add: retry_consumer_def demo_consumer_def)
  have thr: "c_error_max_retry retry_consumer = Some 3" "(3::int) \<noteq> 0"
    by (simp_all add: retry_consumer_def)
  have hdr: "p_headers (m_properties (retried k)) = Some [(''X-Processing-Exceptions'', PInt k)]"
    "map_of [(''X-Processing-Exceptions'', PInt k)] PROCESSING_EXCEPTIONS = Some (PInt k)"
    for k by (simp_all add: retried_def with_headers_def PROCESSING_EXCEPTIONS_def)
  have zero: "process_calls retry_consumer = 0" by code_simp
  have one: "process_calls (snd (execute demo_env demo_user (retried 2) demo_measurement
      retry_consumer)) = 1" by code_simp
  have sup: "message_supported (c_message_type retry_consumer) (p_type (m_properties (retried 3)))"
    by (simp add: retry_consumer_def demo_consumer_def)
  show ?thesis
    using retry_filter_boundary [OF conn ty thr hdr, of 3 demo_env demo_user demo_measurement]
      retry_filter_boundary [OF conn ty thr hdr, of 2 demo_env demo_user demo_measurement]
      conn [of 3] sup thr(1) hdr(1) [of 3] hdr(1) [of 2] zero one
    by simp
qed

section \<open>prepare comes before process\<close>

lemma user_event_not_called: "user_event ev \<Longrightarrow> k \<noteq> ''on_finish'' \<Longrightarrow> ev \<noteq> Called k"
  by (cases ev) auto

lemma run_steps_grows:
  assumes "k \<noteq> ''on_finish''"
  shows "grows_by (\<lambda>ev. ev \<noteq> Called k) c (snd (run_steps env hook ss c))"
proof (rule grows_mono [OF user_frame_grows [OF user_frame_run_steps]])
  fix ev assume "user_event ev"
  then show "ev \<noteq> Called k" using assms by (rule user_event_not_called)
qed

lemma call_user_trace:
  assumes "k \<noteq> ''on_finish''"
  shows "\<exists>evs. c_trace (snd (call_user env hook nm f c)) = c_trace c @ Called nm # evs
           \<and> list_all (\<lambda>ev. ev \<noteq> Called k) evs"
proof -
  obtain r c1 where rs: "run_steps env hook (all_steps f) (emit (Called nm) c) = (r, c1)"
    by (cases "run_steps env hook (all_steps f) (emit (Called nm) c)")
  obtain evs where evs: "c_trace c1 = c_trace (emit (Called nm) c) @ evs"
      "list_all (\<lambda>ev. ev \<noteq> Called k) evs"
    using run_steps_grows [OF assms, of "emit (Called nm) c" env hook "all_steps f"] rs
    by (auto simp: grows_by_def)
  show ?thesis
  proof (cases r)
    case None
    then have "c_trace (snd (call_user env hook nm f c)) = c_trace c @ Called nm # (evs @ [Returned nm])"
      using rs evs(1) by (simp add: call_user_steps)
    moreover have "list_all (\<lambda>ev. ev \<noteq> Called k) (evs @ [Returned nm])"
      using evs(2) by simp
    ultimately show ?thesis by blast
  next
    case (Some e)
    then have "c_trace (snd (call_user env hook nm f c)) = c_trace c @ Called nm # evs"
      using rs evs(1) by (simp add: call_user_steps)
    then show ?thesis using evs(2) by blast
  qed
qed

lemma call_user_grows:
  assumes "k \<noteq> ''on_finish''" and "k \<noteq> nm"
  shows "grows_by (\<lambda>ev. ev \<noteq> Called k) c (snd (call_user env hook nm f c))"
  using call_user_trace [OF assms(1), of env hook nm f c] assms(2)
  by (auto simp: grows_by_def)

lemma publish_not_called: "is_publish ev \<Longrightarrow> ev \<noteq> Called k"
  by (cases ev) simp_all

lemma finally_clause_grows:
  "grows_by (\<lambda>ev. ev \<noteq> Called ''process'') c (snd (finally_clause hook c))"
  by (rule grows_mono [of "\<lambda>ev. ev = Called ''on_finish''"])
     (simp_all add: finally_clause_result)

lemma try_block_trace:
  assumes "prepare_and_process env u c = (r, c1)"
  shows "c_trace (snd (try_block env u c)) =
           c_trace (snd (finally_clause (u_on_finish u)
              (case r of Some e \<Rightarrow> snd (handle_exception env e c1) | None \<Rightarrow> c1)))"
  by (cases r)
     (simp_all add: try_block_unfold [OF assms] leave_try_result split: prod.splits option.splits)

lemma try_block_after:
  assumes "prepare_and_process env u c = (r, c1)" and "c_message c = Some m"
  shows "grows_by (\<lambda>ev. ev \<noteq> Called ''process'') c1 (snd (try_block env u c))"
proof -
  have m1: "c_message c1 = Some m"
    using prepare_and_process_frame [of env u c] assms by simp
  define c2 where "c2 = (case r of Some e \<Rightarrow> snd (handle_exception env e c1) | None \<Rightarrow> c1)"
  have "grows_by is_publish c1 c2"
    using handle_exception_result [OF m1, of env] by (cases r) (simp_all add: c2_def grows_refl)
  then have "grows_by (\<lambda>ev. ev \<noteq> Called ''process'') c1 c2"
    by (rule grows_mono) (rule publish_not_called)
  then have "grows_by (\<lambda>ev. ev \<noteq> Called ''process'') c1 (snd (finally_clause (u_on_finish u) c2))"
    by (rule grows_trans) (rule finally_clause_grows)
  then show ?thesis
    using try_block_trace [OF assms(1)] by (simp add: grows_by_def c2_def)
qed

text \<open>
  C9, for an execution that enters the \<^verbatim>\<open>try\<close> statement. When \<^verbatim>\<open>prepare\<close> has
  completed and has finished the message, \<^verbatim>\<open>execute\<close> returns \<^verbatim>\<open>MESSAGE_ACK\<close> and
  \<^verbatim>\<open>process\<close> is not called. When \<^verbatim>\<open>process\<close> is called, it is called once, all steps
  of \<^verbatim>\<open>prepare\<close> have run to their end without an exception, those of the future it
  returned included, and the trace has all their events, then the return of
  \<^verbatim>\<open>prepare\<close>, then the call of \<^verbatim>\<open>process\<close>.
\<close>

theorem prepare_before_process:
  assumes "fst (before_try env m ms c0) = None"
  shows "(fst (call_user env (u_on_finish u) ''prepare'' (u_prepare u) (snd (before_try env m ms c0))) = None
          \<and> c_finished (snd (call_user env (u_on_finish u) ''prepare'' (u_prepare u) (snd (before_try env m ms c0))))
          \<longrightarrow> fst (execute env u m ms c0) = Inr MESSAGE_ACK
              \<and> process_calls (snd (execute env u m ms c0)) = process_calls c0)
       \<and> (process_calls (snd (execute env u m ms c0)) \<noteq> process_calls c0
          \<longrightarrow> process_calls (snd (execute env u m ms c0)) = process_calls c0 + 1
              \<and> (\<exists>c1 rest.
                    run_steps env (u_on_finish u) (all_steps (u_prepare u))
                      (emit (Called ''prepare'') (snd (before_try env m ms c0))) = (None, c1)
                    \<and> \<not> c_finished c1
                    \<and> c_trace (snd (execute env u m ms c0))
                        = c_trace c1 @ Returned ''prepare'' # Called ''process'' # rest))"
proof -
  define c where "c = snd (before_try env m ms c0)"
  have bt: "before_try env m ms c0 = (None, c)" using assms by (simp add: c_def prod_eq_iff)
  have ex: "execute env u m ms c0 = try_block env u c" using bt by (simp add: execute_def)
  have cm: "c_message c = Some m" and ct: "c_trace c = c_trace c0"
    using before_try_None [OF assms] by (simp_all add: c_def)
  obtain rp cp where prep: "call_user env (u_on_finish u) ''prepare'' (u_prepare u) c = (rp, cp)"
    by (cases "call_user env (u_on_finish u) ''prepare'' (u_prepare u) c")
  have gp: "grows_by (\<lambda>ev. ev \<noteq> Called ''process'') c cp"
    using call_user_grows [of "''process''" "''prepare''" c env "u_on_finish u" "u_prepare u"] prep
    by simp
  have pcp: "process_calls cp = process_calls c0"
    using grows_count [OF gp] ct by (simp add: process_calls_def)
  have mp: "c_message cp = Some m"
    using call_user_frame [of "''prepare''" env "u_on_finish u" "u_prepare u" c] prep cm by simp
  \<comment> \<open>process is not called: prepare raised, or finished the message\<close>
  have skipped: "process_calls (snd (try_block env u c)) = process_calls c0"
    if "prepare_and_process env u c = (rp, cp)"
    using grows_count [OF try_block_after [OF that cm]] pcp by (simp add: process_calls_def)
  have A: "fst (try_block env u c) = Inr MESSAGE_ACK
           \<and> process_calls (snd (try_block env u c)) = process_calls c0"
    if "rp = None" and "c_finished cp"
  proof -
    have pp: "prepare_and_process env u c = (rp, cp)"
      using that prep by (simp add: prepare_and_process_def)
    show ?thesis using skipped [OF pp] pp that by (simp add: try_block_def finally_clause_def)
  qed
  have B: "process_calls (snd (try_block env u c)) = process_calls c0 + 1
           \<and> (\<exists>c1 rest.
                 run_steps env (u_on_finish u) (all_steps (u_prepare u)) (emit (Called ''prepare'') c) = (None, c1)
                 \<and> \<not> c_finished c1
                 \<and> c_trace (snd (try_block env u c))
                     = c_trace c1 @ Returned ''prepare'' # Called ''process'' # rest)"
    if called: "process_calls (snd (try_block env u c)) \<noteq> process_calls c0"
  proof -
    have np: "rp = None \<and> \<not> c_finished cp"
    proof (rule ccontr)
      assume "\<not> (rp = None \<and> \<not> c_finished cp)"
      then have "prepare_and_process env u c = (rp, cp)"
        using prep by (cases rp) (auto simp: prepare_and_process_def)
      then show False using skipped called by simp
    qed
    obtain c1 where rs: "run_steps env (u_on_finish u) (all_steps (u_prepare u)) (emit (Called ''prepare'') c) = (None, c1)"
      and cp: "cp = emit (Returned ''prepare'') c1"
      using prep np by (auto simp: call_user_steps split: prod.splits option.splits)
    obtain rq cq where proc: "call_user env (u_on_finish u) ''process'' (u_process u) cp = (rq, cq)"
      by (cases "call_user env (u_on_finish u) ''process'' (u_process u) cp")
    have pp: "prepare_and_process env u c = (rq, cq)"
      using prep np proc by (simp add: prepare_and_process_def)
    obtain evs where evs: "c_trace cq = c_trace cp @ Called ''process'' # evs"
        "list_all (\<lambda>ev. ev \<noteq> Called ''process'') evs"
      using call_user_trace [of "''process''" env "u_on_finish u" "''process''" "u_process u" cp] proc
      by auto
    obtain evs' where evs': "c_trace (snd (try_block env u c)) = c_trace cq @ evs'"
        "list_all (\<lambda>ev. ev \<noteq> Called ''process'') evs'"
      using try_block_after [OF pp cm] by (auto simp: grows_by_def)
    have tr: "c_trace (snd (try_block env u c))
               = c_trace c1 @ Returned ''prepare'' # Called ''process'' # (evs @ evs')"
      using evs(1) evs'(1) cp by simp
    have "count_list (evs @ evs') (Called ''process'') = 0"
      using evs(2) evs'(2) by (auto simp: list_all_iff count_list_0_iff)
    then have "process_calls (snd (try_block env u c)) = process_calls cp + 1"
      using evs(1) evs'(1) by (simp add: process_calls_def)
    then show ?thesis using pcp rs np cp tr by auto
  qed
  show ?thesis
    using A B prep unfolding ex c_def [symmetric] by auto
qed

theorem prepare_before_process_witness:
  "fst (before_try demo_env demo_message demo_measurement demo_consumer) = None
   \<and> fst (call_user demo_env None ''prepare'' (u_prepare finishing_user)
         (snd (before_try demo_env demo_message demo_measurement demo_consumer))) = None
   \<and> c_finished (snd (call_user demo_env None ''prepare'' (u_prepare finishing_user)
         (snd (before_try demo_env demo_message demo_measurement demo_consumer))))
   \<and> fst (execute demo_env finishing_user demo_message demo_measurement demo_consumer)
       = Inr MESSAGE_ACK
   \<and> process_calls (snd (execute demo_env finishing_user demo_message demo_measurement
        demo_consumer)) = 0
   \<and> process_calls (snd (execute demo_env demo_user demo_message demo_measurement
        demo_consumer)) = 1
   \<and> c_trace (snd (execute demo_env demo_user demo_message demo_measurement demo_consumer))
       = [Called ''prepare'', UserStep ''validate'', UserStep ''lookup'', Returned ''prepare'',
          Called ''process'', UserStep ''handle'', Returned ''process'', Called ''on_finish'']"
proof -
  have enters: "fst (before_try demo_env demo_message demo_measurement demo_consumer) = None"
    by code_simp
  have prepared: "fst (call_user demo_env None ''prepare'' (u_prepare finishing_user)
         (snd (before_try demo_env demo_message demo_measurement demo_consumer))) = None"
    by code_simp
  have finished: "c_finished (snd (call_user demo_env None ''prepare'' (u_prepare finishing_user)
         (snd (before_try demo_env demo_message demo_measurement demo_consumer))))"
    by code_simp
  have zero: "process_calls demo_consumer = 0" by code_simp
  have hooks: "u_on_finish finishing_user = None" "u_on_finish demo_user = None"
    by (simp_all add: finishing_user_def demo_user_def)
  have once: "process_calls (snd (execute demo_env demo_user demo_message demo_measurement
        demo_consumer)) = 1" by code_simp
  have trace: "c_trace (snd (execute demo_env demo_user demo_message demo_measurement demo_consumer))
       = [Called ''prepare'', UserStep ''validate'', UserStep ''lookup'', Returned ''prepare'',
          Called ''process'', UserStep ''handle'', Returned ''process'', Called ''on_finish'']"
    by code_simp
  show ?thesis
    using enters prepared finished zero once trace hooks
      prepare_before_process [OF enters, of finishing_user]
      prepare_before_process [OF enters, of demo_user]
    by simp
qed

section \<open>The decoded body\<close>

lemma smart_body_cached:
  assumes "smart_body env c = (Inr v, c')"
  shows "c_message_body c' = v"
proof (cases "truthy (c_message_body c)")
  case True
  then show ?thesis using assms by (auto simp: smart_body_def)
next
  case False
  then show ?thesis using assms
    by (auto simp: smart_body_def split: prod.splits sum.splits)
qed

lemma emit_smart [simp]: "c_smart (emit ev c) = c_smart c"
  by (simp add: emit_def)

lemma invoke_smart: "c_smart (snd (maybe_invoke_serialization env v mt key c)) = c_smart c"
  by (simp add: maybe_invoke_serialization_def Let_def split: option.splits sum.splits)

lemma decompress_smart: "c_smart (snd (maybe_decompress_body env c)) = c_smart c"
  by (simp add: maybe_decompress_body_def split: option.splits)

lemma deserialize_smart: "c_smart (snd (maybe_deserialize_body env c)) = c_smart c"
  by (simp add: maybe_deserialize_body_def invoke_smart split: option.splits sum.splits)

lemma smart_body_smart: "c_smart (snd (smart_body env c)) = c_smart c"
proof (cases "truthy (c_message_body c)")
  case True
  then show ?thesis by (simp add: smart_body_def)
next
  case False
  obtain r1 c1 where d: "maybe_decompress_body env c = (r1, c1)"
    by (cases "maybe_decompress_body env c")
  have s1: "c_smart c1 = c_smart c" using decompress_smart [of env c] d by simp
  show ?thesis
  proof (cases r1)
    case (Inl e)
    then show ?thesis using False d s1 by (simp add: smart_body_def)
  next
    case (Inr v)
    obtain r2 c2 where s: "maybe_deserialize_body env (c1\<lparr>c_message_body := v\<rparr>) = (r2, c2)"
      by (cases "maybe_deserialize_body env (c1\<lparr>c_message_body := v\<rparr>)")
    have "c_smart c2 = c_smart c"
      using deserialize_smart [of env "c1\<lparr>c_message_body := v\<rparr>"] s s1 by simp
    then show ?thesis using False d Inr s by (cases r2) (simp_all add: smart_body_def)
  qed
qed

lemma body_memoized_when_truthy:
  assumes "c_smart c" and "body env c = (Inr v, c')" and "truthy v"
  shows "body env c' = (Inr v, c')"
proof -
  have sb: "smart_body env c = (Inr v, c')" using assms by (simp add: body_def)
  have "c_message_body c' = v" using smart_body_cached [OF sb] .
  moreover have "c_smart c'" using smart_body_smart [of env c] sb assms(1) by simp
  ultimately show ?thesis using assms(3) by (simp add: body_def smart_body_def)
qed

text \<open>
  C4 fails on the code. \<^verbatim>\<open>SmartConsumer.body\<close> returns the cached value under
  \<^verbatim>\<open>if self._message_body:\<close>, which is false for a decoded body that is falsy. The
  JSON document \<^verbatim>\<open>[]\<close> decodes to the empty list: both reads return it, and
  \<^verbatim>\<open>json.loads\<close> is called twice. The document \<^verbatim>\<open>[1]\<close> is decoded once, as every body
  that decodes to a truthy value is (\<open>body_memoized_when_truthy\<close>).
\<close>

theorem body_decoded_twice:
  "fst (read_twice demo_env (processing (json_message ''[]'') smart_consumer))
     = (Inr (PList []), Inr (PList []))
   \<and> module_calls ''json'' ''loads''
        (snd (read_twice demo_env (processing (json_message ''[]'') smart_consumer))) = 2
   \<and> module_calls ''json'' ''loads''
        (snd (read_twice demo_env (processing (json_message ''[1]'') smart_consumer))) = 1"
  by code_simp

section \<open>Publishing with content negotiation\<close>

lemma publish_rejects_content_type:
  assumes "\<not> no_serialization" and "\<not> is_string bdy"
      and "dict_get props ''content_type'' = PStr s" and "s \<noteq> []"
      and "parse_content_type env s = Inr ct"
      and "(case map_of (SERIALIZATION_MAP env) (content_key ct) of
              None \<Rightarrow> True | Some e \<Rightarrow> \<not> ce_enabled e)"
  shows "\<exists>msg. smart_publish_message env exch rk props bdy no_serialization no_encoding channel
                 conn c = (Inl (ValueError msg), c)"
  using assms
  by (auto simp: smart_publish_message_def serialize_def split: option.splits)

text \<open>
  C7 fails on the code for the content encoding. A list published as
  \<^verbatim>\<open>application/json\<close> with the content encoding \<^verbatim>\<open>deflate\<close>, which is not a key of
  \<^verbatim>\<open>_CODEC_MAP\<close>, is serialized and published as it is, and nothing is raised; the
  docstring of \<^verbatim>\<open>publish_message\<close> promises a \<^verbatim>\<open>ValueError\<close>. The content type is
  checked: an unknown one and a disabled one raise \<^verbatim>\<open>ValueError\<close>
  (\<open>publish_rejects_content_type\<close>).
\<close>

theorem unknown_encoding_published:
  "fst (smart_publish_message demo_env (Some ''orders'') (Some ''order.created'')
          [(''content_type'', PStr ''application/json''), (''content_encoding'', PStr ''deflate'')]
          (PList [PInt 1]) False False None None (processing demo_message smart_consumer))
     = Inr None
   \<and> map_option pub_body (last_publish (snd (smart_publish_message demo_env (Some ''orders'')
          (Some ''order.created'')
          [(''content_type'', PStr ''application/json''), (''content_encoding'', PStr ''deflate'')]
          (PList [PInt 1]) False False None None (processing demo_message smart_consumer))))
       = Some (PStr ''[1]'')
   \<and> fst (smart_publish_message demo_env (Some ''orders'') (Some ''order.created'')
          [(''content_type'', PStr ''application/x-unknown'')]
          (PList [PInt 1]) False False None None (processing demo_message smart_consumer))
       = Inl (ValueError ''Unsupported content-type: application/x-unknown'')
   \<and> fst (smart_publish_message demo_env (Some ''orders'') (Some ''order.created'')
          [(''content_type'', PStr ''application/msgpack'')]
          (PList [PInt 1]) False False None None (processing demo_message smart_consumer))
       = Inl (ValueError ''Disabled content-type: application/msgpack'')"
  by code_simp

section \<open>Replies\<close>

lemma deref_setitem:
  "deref (setitem a k v st) b = (if b = a then AList.update k v (deref st a) else deref st b)"
  by (simp add: deref_def setitem_def update_conv')

lemma dict_get_update: "dict_get (AList.update k v d) k' = (if k' = k then v else dict_get d k')"
  by (simp add: dict_get_def update_conv')

lemma map_of_truthy: "truthy (dict_get d k) \<Longrightarrow> map_of d k \<noteq> None"
  by (cases "map_of d k") (simp_all add: dict_get_def)

lemma reply_defaults_values:
  "dict_get (deref (fst (reply_defaults env c a st)) a) ''app_id''
     = (if truthy (dict_get (deref st a) ''app_id'') then dict_get (deref st a) ''app_id''
        else PStr (c_name c))"
  "dict_get (deref (fst (reply_defaults env c a st)) a) ''correlation_id''
     = (if \<not> truthy (dict_get (deref st a) ''correlation_id'') \<and> truthy_str (message_id c)
        then opt_str (message_id c) else dict_get (deref st a) ''correlation_id'')"
  "dict_get (deref (fst (reply_defaults env c a st)) a) ''message_id''
     = (if truthy (dict_get (deref st a) ''message_id'') then dict_get (deref st a) ''message_id''
        else PStr (uuid4 env (c_uuids c)))"
  "dict_get (deref (fst (reply_defaults env c a st)) a) ''timestamp''
     = (if truthy (dict_get (deref st a) ''timestamp'') then dict_get (deref st a) ''timestamp''
        else PInt (py_int (now env)))"
  by (simp_all add: reply_defaults_def Let_def deref_setitem dict_get_update)

lemma reply_defaults_frame: "b \<noteq> a \<Longrightarrow> deref (fst (reply_defaults env c a st)) b = deref st b"
  by (simp add: reply_defaults_def Let_def deref_setitem)

lemma map_of_setitem:
  "map_of (deref (setitem a k v st) a) k' = (if k' = k then Some v else map_of (deref st a) k')"
  by (simp add: deref_setitem update_conv')

lemma reply_defaults_keys:
  "map_of (deref (fst (reply_defaults env c a st)) a) ''app_id'' \<noteq> None"
  "map_of (deref (fst (reply_defaults env c a st)) a) ''message_id'' \<noteq> None"
  "map_of (deref (fst (reply_defaults env c a st)) a) ''timestamp'' \<noteq> None"
  "truthy_str (message_id c) \<Longrightarrow>
     map_of (deref (fst (reply_defaults env c a st)) a) ''correlation_id'' \<noteq> None"
  by (auto simp: reply_defaults_def Let_def map_of_setitem dest: map_of_truthy)


lemma grows_any: "grows_by (\<lambda>ev. True) c (snd (maybe_invoke_serialization env v mt key c))"
  by (simp add: maybe_invoke_serialization_def Let_def grows_refl grows_emit
      split: option.splits sum.splits)

lemma serialize_grows: "grows_by (\<lambda>ev. True) c (snd (serialize env v ct c))"
  by (simp add: serialize_def grows_refl grows_any split: option.splits sum.splits)

lemma compress_grows: "grows_by (\<lambda>ev. True) c (snd (compress env v module_name c))"
  by (simp add: compress_def grows_refl grows_emit split: sum.splits pyval.splits)

lemma publish_message_ok:
  assumes "publish_message env exch rk props bdy channel conn c = (Inr fut, c')"
  shows "\<exists>p. c_trace c' = c_trace c @ [BasicPublish p]
           \<and> pub_properties p = get_pika_properties props
           \<and> pub_routing_key p = rk \<and> pub_exchange p = exch \<and> pub_body p = bdy"
  using assms
  by (auto simp: publish_message_def publisher_confirmation_future_def Let_def emit_def
      split: sum.splits prod.splits option.splits if_splits)

lemma smart_publish_message_ok:
  assumes "smart_publish_message env exch rk props bdy ns ne channel conn c = (Inr fut, c')"
  shows "\<exists>evs p. c_trace c' = c_trace c @ evs @ [BasicPublish p]
           \<and> pub_properties p = get_pika_properties props
           \<and> pub_routing_key p = rk \<and> pub_exchange p = exch"
proof -
  define s1 where "s1 =
    (if \<not> ns \<and> \<not> is_string bdy \<and> truthy (dict_get props ''content_type'') then
       (case dict_get props ''content_type'' of
          PStr s \<Rightarrow>
            (case parse_content_type env s of
               Inl e \<Rightarrow> (Inl e, c)
             | Inr ct \<Rightarrow> serialize env bdy ct c)
        | _ \<Rightarrow> (Inl TypeError, c))
     else (Inr bdy, c))"
  have g1: "grows_by (\<lambda>ev. True) c (snd s1)"
    by (simp add: s1_def grows_refl serialize_grows split: pyval.splits sum.splits)
  obtain b1 c1 where r1: "s1 = (Inr b1, c1)"
    using assms unfolding smart_publish_message_def s1_def [symmetric]
    by (cases s1; cases "fst s1") auto
  define s2 where "s2 =
    (if ne then (Inr b1, c1)
     else (case dict_get props ''content_encoding'' of
             PStr s \<Rightarrow>
               (case map_of CODEC_MAP s of
                  None \<Rightarrow> (Inr b1, c1)
                | Some module_name \<Rightarrow> compress env b1 module_name c1)
           | PList _ \<Rightarrow> (Inl TypeError, c1)
           | PDict _ \<Rightarrow> (Inl TypeError, c1)
           | _ \<Rightarrow> (Inr b1, c1)))"
  have g2: "grows_by (\<lambda>ev. True) c1 (snd s2)"
    by (simp add: s2_def grows_refl compress_grows split: pyval.splits option.splits)
  obtain b2 c2 where r2: "s2 = (Inr b2, c2)"
    using assms r1 unfolding smart_publish_message_def s1_def [symmetric]
    by (cases s2; cases "fst s2") (auto simp: s2_def [symmetric])
  have pm: "publish_message env exch rk props b2 (or_str channel conn) None c2 = (Inr fut, c')"
    using assms r1 r2 unfolding smart_publish_message_def s1_def [symmetric]
    by (simp add: s2_def [symmetric])
  obtain evs where evs: "c_trace c2 = c_trace c @ evs"
    using g1 g2 r1 r2 by (auto simp: grows_by_def)
  show ?thesis
    using publish_message_ok [OF pm] evs by auto
qed

lemma properties_or_new_given:
  "deref (snd (properties_or_new props st)) (fst (properties_or_new props st))
     = (case props of None \<Rightarrow> [] | Some a \<Rightarrow> deref st a)"
  by (simp add: properties_or_new_def deref_def update_conv' split: option.splits)


lemma rpc_reply_else:
  assumes "\<not> (reply_to_arg = None \<and> reply_to c = None)"
  shows "rpc_reply env bdy props exch reply_to_arg conn (c, st) =
     (let a = fst (properties_or_new props st);
          d = reply_defaults env c a (snd (properties_or_new props st));
          c1 = c\<lparr>c_uuids := snd d\<rparr>;
          r = (if c_smart c1 then
                 smart_publish_message env (or_str exch (exchange c1)) (or_str reply_to_arg (reply_to c1))
                   (deref (fst d) a) bdy (truthy_str conn) False None None c1
               else
                 publish_message env (or_str exch (exchange c1)) (or_str reply_to_arg (reply_to c1))
                   (deref (fst d) a) bdy conn None c1)
      in (fst r, snd r, fst d))"
  by (simp only: rpc_reply_def Let_def fst_conv snd_conv if_not_P [OF assms])

lemma rpc_reply_store:
  assumes "\<not> (reply_to_arg = None \<and> reply_to c = None)"
  shows "snd (snd (rpc_reply env bdy props exch reply_to_arg conn (c, st)))
       = fst (reply_defaults env c (fst (properties_or_new props st))
                (snd (properties_or_new props st)))"
  by (simp add: rpc_reply_else [OF assms] Let_def)

lemma rpc_reply_publish:
  assumes "\<not> (reply_to_arg = None \<and> reply_to c = None)"
      and "fst (rpc_reply env bdy props exch reply_to_arg conn (c, st)) = Inr fut"
  shows "\<exists>p. last_publish (fst (snd (rpc_reply env bdy props exch reply_to_arg conn (c, st)))) = Some p
           \<and> pub_routing_key p = or_str reply_to_arg (reply_to c)
           \<and> pub_properties p = get_pika_properties
                (deref (snd (snd (rpc_reply env bdy props exch reply_to_arg conn (c, st))))
                   (fst (properties_or_new props st)))"
proof -
  define a where "a = fst (properties_or_new props st)"
  define d where "d = reply_defaults env c a (snd (properties_or_new props st))"
  define c1 where "c1 = c\<lparr>c_uuids := snd d\<rparr>"
  define rk where "rk = or_str reply_to_arg (reply_to c1)"
  define ex where "ex = or_str exch (exchange c1)"
  have c1: "reply_to c1 = reply_to c" "c_trace c1 = c_trace c"
    by (simp_all add: c1_def reply_to_def)
  define r where "r = (if c_smart c1 then
                    smart_publish_message env ex rk (deref (fst d) a) bdy (truthy_str conn) False None None c1
                  else publish_message env ex rk (deref (fst d) a) bdy conn None c1)"
  have rr: "rpc_reply env bdy props exch reply_to_arg conn (c, st) = (fst r, snd r, fst d)"
    by (simp add: rpc_reply_else [OF assms(1)] Let_def r_def ex_def rk_def c1_def d_def a_def)
  have ok: "r = (Inr fut, snd r)" using assms(2) rr by (simp add: prod_eq_iff)
  have "\<exists>evs p. c_trace (snd r) = c_trace c1 @ evs @ [BasicPublish p]
           \<and> pub_properties p = get_pika_properties (deref (fst d) a) \<and> pub_routing_key p = rk"
  proof (cases "c_smart c1")
    case True
    then have "smart_publish_message env ex rk (deref (fst d) a) bdy (truthy_str conn) False None None c1
        = (Inr fut, snd r)" using ok by (simp add: r_def)
    from smart_publish_message_ok [OF this] show ?thesis by blast
  next
    case False
    then have "publish_message env ex rk (deref (fst d) a) bdy conn None c1 = (Inr fut, snd r)"
      using ok by (simp add: r_def)
    from publish_message_ok [OF this] show ?thesis by auto
  qed
  then obtain evs p where p: "c_trace (snd r) = (c_trace c1 @ evs) @ [BasicPublish p]"
      "pub_properties p = get_pika_properties (deref (fst d) a)" "pub_routing_key p = rk"
    by auto
  have "last_publish (snd r) = Some p"
    unfolding last_publish_def p(1) by (rule last_publish_of_snoc)
  then show ?thesis
    using p(2,3) rr c1 by (simp add: rk_def a_def)
qed

text \<open>
  C8. Without a \<^verbatim>\<open>reply_to\<close> argument and without a \<^verbatim>\<open>reply_to\<close> property of the
  message, \<^verbatim>\<open>rpc_reply\<close> raises \<^verbatim>\<open>ValueError\<close> and leaves the consumer, its trace
  and the store as they were: nothing was published. With a routing key, a call that
  returns has published, with that routing key, the properties of a dictionary in which
  \<^verbatim>\<open>app_id\<close>, \<^verbatim>\<open>message_id\<close> and \<^verbatim>\<open>timestamp\<close> hold the value that was given, or the
  name of the consumer, a new UUID and the current time when none was given, and
  \<^verbatim>\<open>correlation_id\<close> holds the message id of the message when none was given and the
  message has one.
\<close>

theorem rpc_reply_routing_key:
  "(reply_to_arg = None \<and> reply_to c = None \<longrightarrow>
      rpc_reply env bdy props exch reply_to_arg conn (c, st)
        = (Inl (ValueError ''Missing reply_to routing key''), c, st))
   \<and> (\<forall>fut. \<not> (reply_to_arg = None \<and> reply_to c = None)
           \<and> fst (rpc_reply env bdy props exch reply_to_arg conn (c, st)) = Inr fut \<longrightarrow>
        (\<exists>p d. last_publish (fst (snd (rpc_reply env bdy props exch reply_to_arg conn (c, st))))
                 = Some p
           \<and> pub_routing_key p = or_str reply_to_arg (reply_to c)
           \<and> pub_properties p = get_pika_properties d
           \<and> dict_get d ''app_id''
               = (if truthy (dict_get (given_properties props st) ''app_id'')
                  then dict_get (given_properties props st) ''app_id'' else PStr (c_name c))
           \<and> dict_get d ''correlation_id''
               = (if \<not> truthy (dict_get (given_properties props st) ''correlation_id'')
                     \<and> truthy_str (message_id c)
                  then opt_str (message_id c)
                  else dict_get (given_properties props st) ''correlation_id'')
           \<and> dict_get d ''message_id''
               = (if truthy (dict_get (given_properties props st) ''message_id'')
                  then dict_get (given_properties props st) ''message_id''
                  else PStr (uuid4 env (c_uuids c)))
           \<and> dict_get d ''timestamp''
               = (if truthy (dict_get (given_properties props st) ''timestamp'')
                  then dict_get (given_properties props st) ''timestamp''
                  else PInt (py_int (now env)))))"
proof (intro conjI impI allI)
  assume "reply_to_arg = None \<and> reply_to c = None"
  then show "rpc_reply env bdy props exch reply_to_arg conn (c, st)
        = (Inl (ValueError ''Missing reply_to routing key''), c, st)"
    by (simp add: rpc_reply_def)
next
  fix fut
  assume h: "\<not> (reply_to_arg = None \<and> reply_to c = None)
           \<and> fst (rpc_reply env bdy props exch reply_to_arg conn (c, st)) = Inr fut"
  let ?a = "fst (properties_or_new props st)"
  let ?st0 = "snd (properties_or_new props st)"
  let ?d = "deref (fst (reply_defaults env c ?a ?st0)) ?a"
  have g: "deref ?st0 ?a = given_properties props st"
    by (simp add: properties_or_new_given given_properties_def)
  obtain p where p: "last_publish (fst (snd (rpc_reply env bdy props exch reply_to_arg conn (c, st))))
                 = Some p" "pub_routing_key p = or_str reply_to_arg (reply_to c)"
      "pub_properties p = get_pika_properties ?d"
    using rpc_reply_publish [of reply_to_arg c env bdy props exch conn st fut] h
      rpc_reply_store [of reply_to_arg c env bdy props exch conn st] by auto
  show "\<exists>p d. last_publish (fst (snd (rpc_reply env bdy props exch reply_to_arg conn (c, st))))
                 = Some p
           \<and> pub_routing_key p = or_str reply_to_arg (reply_to c)
           \<and> pub_properties p = get_pika_properties d
           \<and> dict_get d ''app_id''
               = (if truthy (dict_get (given_properties props st) ''app_id'')
                  then dict_get (given_properties props st) ''app_id'' else PStr (c_name c))
           \<and> dict_get d ''correlation_id''
               = (if \<not> truthy (dict_get (given_properties props st) ''correlation_id'')
                     \<and> truthy_str (message_id c)
                  then opt_str (message_id c)
                  else dict_get (given_properties props st) ''correlation_id'')
           \<and> dict_get d ''message_id''
               = (if truthy (dict_get (given_properties props st) ''message_id'')
                  then dict_get (given_properties props st) ''message_id''
                  else PStr (uuid4 env (c_uuids c)))
           \<and> dict_get d ''timestamp''
               = (if truthy (dict_get (given_properties props st) ''timestamp'')
                  then dict_get (given_properties props st) ''timestamp''
                  else PInt (py_int (now env)))"
    apply (rule exI [of _ p])
    apply (rule exI [of _ ?d])
    using p reply_defaults_values [of env c ?a ?st0] g
    apply simp
    done
qed

lemma fresh_above: "a \<in> fst ` set st \<Longrightarrow> a < fresh st"
proof -
  assume "a \<in> fst ` set st"
  then have "a \<in> set (0 # map fst st)" by auto
  then have "a \<le> Max (set (0 # map fst st))" by (intro Max_ge) auto
  also have "\<dots> = fold max (map fst st) 0" by (rule Max.set_eq_fold)
  finally show ?thesis by (simp add: fresh_def)
qed

theorem rpc_reply_routing_key_witness:
  "reply_to (processing demo_message demo_consumer) = None
   \<and> rpc_reply demo_env (PBytes ''ok'') None None None None
         (processing demo_message demo_consumer, [])
       = (Inl (ValueError ''Missing reply_to routing key''),
          processing demo_message demo_consumer, [])
   \<and> fst (rpc_reply demo_env (PBytes ''ok'') None None None None (replying_consumer, []))
       = Inr None
   \<and> map_option pub_routing_key (last_publish (fst (snd
         (rpc_reply demo_env (PBytes ''ok'') None None None None (replying_consumer, [])))))
       = Some (Some ''replies'')
   \<and> map_option pub_properties (last_publish (fst (snd
         (rpc_reply demo_env (PBytes ''ok'') None None None None (replying_consumer, [])))))
       = Some [(''app_id'', PStr ''Worker''), (''correlation_id'', PStr ''m-1''),
               (''message_id'', PStr ''uuid-''), (''timestamp'', PInt 1700000000)]"
proof -
  have missing: "reply_to (processing demo_message demo_consumer) = None"
    by code_simp
  have returns: "fst (rpc_reply demo_env (PBytes ''ok'') None None None None (replying_consumer, []))
       = Inr None"
    by code_simp
  have key: "map_option pub_routing_key (last_publish (fst (snd
         (rpc_reply demo_env (PBytes ''ok'') None None None None (replying_consumer, [])))))
       = Some (Some ''replies'')"
    by code_simp
  have props: "map_option pub_properties (last_publish (fst (snd
         (rpc_reply demo_env (PBytes ''ok'') None None None None (replying_consumer, [])))))
       = Some [(''app_id'', PStr ''Worker''), (''correlation_id'', PStr ''m-1''),
               (''message_id'', PStr ''uuid-''), (''timestamp'', PInt 1700000000)]"
    by code_simp
  show ?thesis
    using missing returns key props
      rpc_reply_routing_key [of None "processing demo_message demo_consumer" demo_env
        "PBytes ''ok''" None None None "[]"]
    by simp
qed

text \<open>
  C10, as the code has it. The call has a routing key. When the dictionary that the caller
  passed is not empty, the entries are written into it: after the call it holds
  \<^verbatim>\<open>app_id\<close>, \<^verbatim>\<open>message_id\<close> and \<^verbatim>\<open>timestamp\<close>, and \<^verbatim>\<open>correlation_id\<close> when the
  message has a message id, and no other dictionary of the store has changed. When the
  dictionary is empty it stays empty: \<^verbatim>\<open>properties or {}\<close> has replaced it by a new
  one.
\<close>

theorem rpc_reply_in_place:
  assumes "\<not> (reply_to_arg = None \<and> reply_to c = None)"
  shows "(deref st a \<noteq> [] \<longrightarrow>
            map_of (deref (snd (snd (rpc_reply env bdy (Some a) exch reply_to_arg conn (c, st)))) a)
               ''app_id'' \<noteq> None
          \<and> (truthy_str (message_id c) \<longrightarrow>
               map_of (deref (snd (snd (rpc_reply env bdy (Some a) exch reply_to_arg conn (c, st)))) a)
                 ''correlation_id'' \<noteq> None)
          \<and> map_of (deref (snd (snd (rpc_reply env bdy (Some a) exch reply_to_arg conn (c, st)))) a)
               ''message_id'' \<noteq> None
          \<and> map_of (deref (snd (snd (rpc_reply env bdy (Some a) exch reply_to_arg conn (c, st)))) a)
               ''timestamp'' \<noteq> None
          \<and> (\<forall>b. b \<noteq> a \<longrightarrow>
                deref (snd (snd (rpc_reply env bdy (Some a) exch reply_to_arg conn (c, st)))) b
                  = deref st b))
       \<and> (deref st a = [] \<and> a \<in> fst ` set st \<longrightarrow>
            deref (snd (snd (rpc_reply env bdy (Some a) exch reply_to_arg conn (c, st)))) a = [])"
proof (intro conjI impI allI)
  assume ne: "deref st a \<noteq> []"
  have st': "snd (snd (rpc_reply env bdy (Some a) exch reply_to_arg conn (c, st)))
               = fst (reply_defaults env c a st)"
    using rpc_reply_store [OF assms, of env bdy "Some a" exch conn st] ne
    by (simp add: properties_or_new_def)
  show "map_of (deref (snd (snd (rpc_reply env bdy (Some a) exch reply_to_arg conn (c, st)))) a)
               ''app_id'' \<noteq> None"
    unfolding st' by (rule reply_defaults_keys)
  show "map_of (deref (snd (snd (rpc_reply env bdy (Some a) exch reply_to_arg conn (c, st)))) a)
               ''message_id'' \<noteq> None"
    unfolding st' by (rule reply_defaults_keys)
  show "map_of (deref (snd (snd (rpc_reply env bdy (Some a) exch reply_to_arg conn (c, st)))) a)
               ''timestamp'' \<noteq> None"
    unfolding st' by (rule reply_defaults_keys)
  show "map_of (deref (snd (snd (rpc_reply env bdy (Some a) exch reply_to_arg conn (c, st)))) a)
                 ''correlation_id'' \<noteq> None" if "truthy_str (message_id c)"
    unfolding st' using that by (rule reply_defaults_keys)
  show "deref (snd (snd (rpc_reply env bdy (Some a) exch reply_to_arg conn (c, st)))) b = deref st b"
    if "b \<noteq> a" for b
    unfolding st' using that by (rule reply_defaults_frame)
next
  assume e: "deref st a = [] \<and> a \<in> fst ` set st"
  then have lt: "a \<noteq> fresh st" using fresh_above [of a st] by simp
  have "snd (snd (rpc_reply env bdy (Some a) exch reply_to_arg conn (c, st)))
               = fst (reply_defaults env c (fresh st) (AList.update (fresh st) [] st))"
    using rpc_reply_store [OF assms, of env bdy "Some a" exch conn st] e
    by (simp add: properties_or_new_def)
  then show "deref (snd (snd (rpc_reply env bdy (Some a) exch reply_to_arg conn (c, st)))) a = []"
    using reply_defaults_frame [OF lt, of env c "AList.update (fresh st) [] st"] e lt
    by (simp add: deref_def update_conv')
qed

theorem rpc_reply_in_place_witness:
  "reply_to replying_consumer = Some ''replies''
   \<and> deref (one_dict [(''priority'', PInt 1)]) 0 \<noteq> []
   \<and> deref (snd (snd (rpc_reply demo_env (PBytes ''ok'') (Some 0) None None None
        (replying_consumer, one_dict [(''priority'', PInt 1)])))) 0
       = [(''priority'', PInt 1), (''app_id'', PStr ''Worker''), (''correlation_id'', PStr ''m-1''),
          (''message_id'', PStr ''uuid-''), (''timestamp'', PInt 1700000000)]
   \<and> deref (one_dict []) 0 = []
   \<and> 0 \<in> fst ` set (one_dict [])
   \<and> deref (snd (snd (rpc_reply demo_env (PBytes ''ok'') (Some 0) None None None
        (replying_consumer, one_dict [])))) 0 = []"
proof -
  have key: "reply_to replying_consumer = Some ''replies''"
    by code_simp
  have has_key: "\<not> ((None :: string option) = None \<and> reply_to replying_consumer = None)"
    using key by simp
  have filled: "deref (one_dict [(''priority'', PInt 1)]) 0 \<noteq> []"
    by (simp add: one_dict_def deref_def)
  have after: "deref (snd (snd (rpc_reply demo_env (PBytes ''ok'') (Some 0) None None None
        (replying_consumer, one_dict [(''priority'', PInt 1)])))) 0
       = [(''priority'', PInt 1), (''app_id'', PStr ''Worker''), (''correlation_id'', PStr ''m-1''),
          (''message_id'', PStr ''uuid-''), (''timestamp'', PInt 1700000000)]"
    by code_simp
  have empty: "deref (one_dict []) 0 = []" "0 \<in> fst ` set (one_dict [])"
    by (simp_all add: one_dict_def deref_def)
  show ?thesis
    using key filled after empty
      rpc_reply_in_place [OF has_key, of "one_dict []" 0 demo_env "PBytes ''ok''" None None]
    by simp
qed

text \<open>
  C10 as it is worded fails for a dictionary that is empty: the call returns, the reply
  is published with the four entries, and the dictionary of the caller is still empty.
\<close>

theorem rpc_reply_in_place_counterexample:
  "fst (rpc_reply demo_env (PBytes ''ok'') (Some 0) None None None (replying_consumer, one_dict []))
     = Inr None
   \<and> map_option pub_properties (last_publish (fst (snd
         (rpc_reply demo_env (PBytes ''ok'') (Some 0) None None None
            (replying_consumer, one_dict [])))))
       = Some [(''app_id'', PStr ''Worker''), (''correlation_id'', PStr ''m-1''),
               (''message_id'', PStr ''uuid-''), (''timestamp'', PInt 1700000000)]
   \<and> deref (snd (snd (rpc_reply demo_env (PBytes ''ok'') (Some 0) None None None
        (replying_consumer, one_dict [])))) 0 = []"
  by code_simp


end
